theory Spec2Isabelle
  imports Complex_Main
begin

section \<open>Data model\<close>

text \<open>
  The tables of the store, as the routes read and write them through the ORM. A table is
  a list of rows in insertion order; a row is a record. Identifiers are the SERIAL keys.
  Money columns are DECIMAL(10,2): they are counted here in hundredths, as integers, so
  that the decimal arithmetic of the settlement path (\<open>Decimal.mul\<close>, \<open>Decimal.add\<close>) is
  exact integer arithmetic. Quantities and stock are INTEGER columns and may be negative.
\<close>

type_synonym decimal = int

datatype cart_status = ACTIVE | ABANDONED | CHECKED_OUT | COMPLETED

record user =
  u_id :: nat
  u_email :: string

record product =
  p_id :: nat
  p_name :: string

record variant =
  v_id :: nat
  v_productId :: nat
  v_price :: decimal
  v_sku :: string
  v_stock :: int
  v_title :: string

record cart =
  c_id :: nat
  c_userId :: "nat option"
  c_cartStatus :: cart_status
  c_totalPrice :: decimal
  c_completedAt :: "nat option"
  c_orderId :: "nat option"

record cart_item =
  ci_id :: nat
  ci_cartId :: nat
  ci_productId :: nat
  ci_variantId :: nat
  ci_quantity :: int
  ci_itemPrice :: decimal

text \<open>
  \<open>ORD-${Date.now()}-${userId}\<close>: the order number is the pair of the clock reading and
  the user id; two order numbers are equal exactly when both parts are.
\<close>

datatype order_number = ORD nat nat

text \<open>
  Two routes create orders, with different columns: the settlement of a payment
  (\<open>routes/payment.js\<close>) and the direct checkout (\<open>routes/order.js\<close>).
\<close>

record settlement_order =
  so_orderNumber :: order_number
  so_email :: string
  so_subtotal :: decimal
  so_taxAmount :: decimal
  so_shippingAmount :: decimal
  so_totalAmount :: decimal
  so_status :: string
  so_financialStatus :: string
  so_fulfillmentStatus :: string

record checkout_order =
  co_orderStatus :: string
  co_totalPrice :: rat
  co_shippingAddress :: string
  co_paymentMethod :: string
  co_notes :: "string option"

datatype order_data = SettlementOrder settlement_order | CheckoutOrder checkout_order

record order =
  o_id :: nat
  o_userId :: nat
  o_data :: order_data

record line_item_data =
  lid_productId :: nat
  lid_variantId :: nat
  lid_quantity :: int
  lid_price :: decimal
  lid_total :: decimal
  lid_title :: string
  lid_variantTitle :: string
  lid_sku :: string

record order_line_item =
  li_id :: nat
  li_orderId :: nat
  li_data :: line_item_data

record order_item =
  oi_id :: nat
  oi_orderId :: nat
  oi_productId :: nat
  oi_variantId :: nat
  oi_quantity :: int
  oi_priceAtPurchase :: decimal

record order_transaction =
  ot_id :: nat
  ot_orderId :: nat
  ot_stripeId :: string
  ot_stripeObjectType :: string
  ot_status :: string
  ot_paymentMethod :: string
  ot_amount :: decimal
  ot_feeAmount :: decimal

record db =
  users :: "user list"
  products :: "product list"
  variants :: "variant list"
  carts :: "cart list"
  cart_items :: "cart_item list"
  orders :: "order list"
  order_line_items :: "order_line_item list"
  order_items :: "order_item list"
  order_transactions :: "order_transaction list"

text \<open>What a rejected ORM call or a failing expression throws.\<close>

datatype error =
  TypeError
  | P2002
  | P2003
  | P2025
  | NumericOverflow
  | InconsistentResult
  | Rejected
  | BusinessError string

text \<open>The next value of a SERIAL key: above every key in the table.\<close>

definition next_id :: "nat list \<Rightarrow> nat" where
  "next_id ids = Suc (fold max ids 0)"

text \<open>A value fits a DECIMAL(10,2) column when it has at most eight integer digits.\<close>

definition fits_decimal_10_2 :: "decimal \<Rightarrow> bool" where
  "fits_decimal_10_2 x = (- 10000000000 < x \<and> x < 10000000000)"

text \<open>A value fits an INTEGER column when it is a 32-bit signed integer.\<close>

definition fits_integer :: "int \<Rightarrow> bool" where
  "fits_integer x = (- 2147483648 \<le> x \<and> x \<le> 2147483647)"

section \<open>The payment gateway's events\<close>

text \<open>
  A checkout session as the gateway echoes it back. The correlation metadata is written
  by the session broker as \<open>userId.toString()\<close> and \<open>cartId.toString()\<close>, so \<open>parseInt\<close>
  reads the two numbers back; the record carries the numbers.
  \<open>payment_method_types\<close> is a list, empty when the field is absent.
\<close>

record stripe_session =
  s_id :: string
  s_userId :: nat
  s_cartId :: nat
  s_payment_intent :: string
  s_payment_method_types :: "string list"

record stripe_event =
  ev_type :: string
  ev_object :: stripe_session

section \<open>Settlement of a completed checkout session\<close>

text \<open>
  \<open>findUnique\<close> with \<open>include: { items: { include: { variant, product } } }\<close>: the cart
  row, and each of its items joined with its variant and its product. The foreign keys of
  \<open>cart_items\<close> make every join succeed; on a store without them the read is rejected.
\<close>

record joined_item =
  ji_item :: cart_item
  ji_variant :: variant
  ji_product :: product

definition joinItem :: "db \<Rightarrow> cart_item \<Rightarrow> joined_item option" where
  "joinItem d it =
     (case find (\<lambda>v. v_id v = ci_variantId it) (variants d) of
        None \<Rightarrow> None
      | Some v \<Rightarrow>
          (case find (\<lambda>p. p_id p = ci_productId it) (products d) of
             None \<Rightarrow> None
           | Some p \<Rightarrow> Some \<lparr>ji_item = it, ji_variant = v, ji_product = p\<rparr>))"

definition itemsOfCart :: "db \<Rightarrow> nat \<Rightarrow> cart_item list" where
  "itemsOfCart d cid = filter (\<lambda>it. ci_cartId it = cid) (cart_items d)"

definition findCartWithItems :: "db \<Rightarrow> nat \<Rightarrow> error + (cart \<times> joined_item list) option" where
  "findCartWithItems d cid =
     (case find (\<lambda>c. c_id c = cid) (carts d) of
        None \<Rightarrow> Inr None
      | Some c \<Rightarrow>
          (case those (map (joinItem d) (itemsOfCart d cid)) of
             None \<Rightarrow> Inl InconsistentResult
           | Some js \<Rightarrow> Inr (Some (c, js))))"

text \<open>
  \<open>let totalAmount = 0\<close> is a plain number until the first pass of the loop replaces it
  by a \<open>Decimal\<close>; only a \<open>Decimal\<close> has the method \<open>toNumber\<close>, so calling it on the
  plain number throws a TypeError.
\<close>

datatype amount = Number decimal | Decimal decimal

fun amount_value :: "amount \<Rightarrow> decimal" where
  "amount_value (Number n) = n"
| "amount_value (Decimal n) = n"

fun toNumber :: "amount \<Rightarrow> error + decimal" where
  "toNumber (Number n) = Inl TypeError"
| "toNumber (Decimal n) = Inr n"

text \<open>Why the handler returns before the transaction.\<close>

datatype stop = CartNotFound | Overselling nat | Thrown error

definition lineItemOf :: "joined_item \<Rightarrow> line_item_data" where
  "lineItemOf j =
     \<lparr>lid_productId = ci_productId (ji_item j),
      lid_variantId = ci_variantId (ji_item j),
      lid_quantity = ci_quantity (ji_item j),
      lid_price = v_price (ji_variant j),
      lid_total = v_price (ji_variant j) * ci_quantity (ji_item j),
      lid_title = p_name (ji_product j),
      lid_variantTitle = v_title (ji_variant j),
      lid_sku = v_sku (ji_variant j)\<rparr>"

text \<open>
  The loop over \<open>cart.items\<close>: it adds the item's total to \<open>totalAmount\<close>, returns from the
  handler at the first item whose variant has less stock than the quantity, and otherwise
  pushes the line item.
\<close>

fun lineItemsLoop ::
  "joined_item list \<Rightarrow> amount \<Rightarrow> line_item_data list \<Rightarrow> stop + (amount \<times> line_item_data list)" where
  "lineItemsLoop [] totalAmount lineItemsData = Inr (totalAmount, lineItemsData)"
| "lineItemsLoop (j # js) totalAmount lineItemsData =
     (let variantPrice = v_price (ji_variant j);
          itemTotal = variantPrice * ci_quantity (ji_item j);
          totalAmount' = Decimal (amount_value totalAmount + itemTotal)
      in if v_stock (ji_variant j) < ci_quantity (ji_item j)
         then Inl (Overselling (ci_variantId (ji_item j)))
         else lineItemsLoop js totalAmount' (lineItemsData @ [lineItemOf j]))"

text \<open>What the handler has in hand when it opens the transaction.\<close>

record plan =
  pl_userIdNum :: nat
  pl_cartIdNum :: nat
  pl_items :: "cart_item list"
  pl_user :: "user option"
  pl_orderNumber :: order_number
  pl_lineItemsData :: "line_item_data list"
  pl_orderTotal :: decimal

definition prepareSettlement :: "stripe_session \<Rightarrow> nat \<Rightarrow> db \<Rightarrow> stop + plan" where
  "prepareSettlement session now d =
     (case findCartWithItems d (s_cartId session) of
        Inl e \<Rightarrow> Inl (Thrown e)
      | Inr None \<Rightarrow> Inl CartNotFound
      | Inr (Some (c, js)) \<Rightarrow>
          (case lineItemsLoop js (Number 0) [] of
             Inl s \<Rightarrow> Inl s
           | Inr (totalAmount, lineItemsData) \<Rightarrow>
               (case toNumber totalAmount of
                  Inl e \<Rightarrow> Inl (Thrown e)
                | Inr orderTotal \<Rightarrow>
                    Inr \<lparr>pl_userIdNum = s_userId session,
                         pl_cartIdNum = s_cartId session,
                         pl_items = map ji_item js,
                         pl_user = find (\<lambda>u. u_id u = s_userId session) (users d),
                         pl_orderNumber = ORD now (s_userId session),
                         pl_lineItemsData = lineItemsData,
                         pl_orderTotal = orderTotal\<rparr>)))"

subsection \<open>The transaction\<close>

text \<open>
  Every call on the transaction client is a promise that the store may reject for a
  reason outside the tables (a lost connection, a timeout): \<open>rejects\<close> says which of
  the four calls are rejected that way. The rejections that the tables themselves decide
  (a missing row, a unique index) are written out.
\<close>

datatype db_call = StockDecrement | OrderCreate | TransactionCreate | CartClear

text \<open>
  \<open>tx.productVariant.update({ where: { id }, data: { stock: { decrement } } })\<close>:
  one relative update of the row, rejected (P2025) when the row is missing. No constraint
  keeps the stock at or above zero: the only bound is the range of the INTEGER column.
\<close>

definition decrementStock :: "nat \<Rightarrow> int \<Rightarrow> variant list \<Rightarrow> error + variant list" where
  "decrementStock vid q vs =
     (if \<not> list_ex (\<lambda>v. v_id v = vid) vs then Inl P2025
      else if \<not> list_all (\<lambda>v. fits_integer (v_stock v - q)) (filter (\<lambda>v. v_id v = vid) vs)
      then Inl NumericOverflow
      else Inr (map (\<lambda>v. if v_id v = vid then v\<lparr>v_stock := v_stock v - q\<rparr> else v) vs))"

fun stockUpdates :: "cart_item list \<Rightarrow> variant list \<Rightarrow> error + variant list" where
  "stockUpdates [] vs = Inr vs"
| "stockUpdates (it # its) vs =
     (case decrementStock (ci_variantId it) (ci_quantity it) vs of
        Inl e \<Rightarrow> Inl e
      | Inr vs' \<Rightarrow> stockUpdates its vs')"

definition stepStock :: "(db_call \<Rightarrow> bool) \<Rightarrow> plan \<Rightarrow> db \<Rightarrow> error + db" where
  "stepStock rejects pl d =
     (if rejects StockDecrement then Inl Rejected
      else (case stockUpdates (pl_items pl) (variants d) of
              Inl e \<Rightarrow> Inl e
            | Inr vs \<Rightarrow> Inr (d\<lparr>variants := vs\<rparr>)))"

fun orderNumberOf :: "order \<Rightarrow> order_number list" where
  "orderNumberOf ord =
     (case o_data ord of SettlementOrder s \<Rightarrow> [so_orderNumber s] | CheckoutOrder c \<Rightarrow> [])"

definition orderNumbers :: "db \<Rightarrow> order_number list" where
  "orderNumbers d = concat (map orderNumberOf (orders d))"

fun createLineItems :: "nat \<Rightarrow> nat \<Rightarrow> line_item_data list \<Rightarrow> order_line_item list" where
  "createLineItems i oid [] = []"
| "createLineItems i oid (x # xs) =
     \<lparr>li_id = i, li_orderId = oid, li_data = x\<rparr> # createLineItems (Suc i) oid xs"

definition settlementOrderOf :: "plan \<Rightarrow> user \<Rightarrow> settlement_order" where
  "settlementOrderOf pl u =
     \<lparr>so_orderNumber = pl_orderNumber pl,
      so_email = u_email u,
      so_subtotal = pl_orderTotal pl,
      so_taxAmount = 0,
      so_shippingAmount = 0,
      so_totalAmount = pl_orderTotal pl,
      so_status = ''processing'',
      so_financialStatus = ''paid'',
      so_fulfillmentStatus = ''unfulfilled''\<rparr>"

text \<open>
  \<open>tx.order.create\<close> with the nested \<open>lineItems.create\<close>. Building the argument reads
  \<open>user.email\<close>, a TypeError when no user row was found. The insert is rejected when
  the order number is taken (unique index) or an amount does not fit its column.
\<close>

definition stepOrder :: "(db_call \<Rightarrow> bool) \<Rightarrow> plan \<Rightarrow> db \<Rightarrow> error + (order \<times> db)" where
  "stepOrder rejects pl d =
     (case pl_user pl of
        None \<Rightarrow> Inl TypeError
      | Some u \<Rightarrow>
          if rejects OrderCreate then Inl Rejected
          else if pl_orderNumber pl \<in> set (orderNumbers d) then Inl P2002
          else if \<not> (fits_decimal_10_2 (pl_orderTotal pl)
                      \<and> list_all (\<lambda>x. fits_decimal_10_2 (lid_price x) \<and> fits_decimal_10_2 (lid_total x))
                            (pl_lineItemsData pl))
          then Inl NumericOverflow
          else
            (let newOrder =
                   \<lparr>o_id = next_id (map o_id (orders d)),
                    o_userId = pl_userIdNum pl,
                    o_data = SettlementOrder (settlementOrderOf pl u)\<rparr>
             in Inr (newOrder,
                     d\<lparr>orders := orders d @ [newOrder],
                       order_line_items := order_line_items d @
                         createLineItems (next_id (map li_id (order_line_items d)))
                           (o_id newOrder) (pl_lineItemsData pl)\<rparr>)))"

text \<open>\<open>session.payment_method_types?.[0] || 'card'\<close>\<close>

definition paymentMethodOf :: "stripe_session \<Rightarrow> string" where
  "paymentMethodOf session =
     (case s_payment_method_types session of
        [] \<Rightarrow> ''card''
      | m # ms \<Rightarrow> if m = [] then ''card'' else m)"

text \<open>
  \<open>tx.orderTransaction.create\<close>: rejected (P2002) when a row with the same
  \<open>stripe_id\<close> exists (unique index \<open>order_transactions_stripe_id_key\<close>).
\<close>

definition stepTransaction ::
  "(db_call \<Rightarrow> bool) \<Rightarrow> stripe_session \<Rightarrow> plan \<Rightarrow> order \<Rightarrow> db \<Rightarrow> error + db" where
  "stepTransaction rejects session pl newOrder d =
     (if rejects TransactionCreate then Inl Rejected
      else if s_payment_intent session \<in> set (map ot_stripeId (order_transactions d))
      then Inl P2002
      else Inr (d\<lparr>order_transactions := order_transactions d @
                  [\<lparr>ot_id = next_id (map ot_id (order_transactions d)),
                    ot_orderId = o_id newOrder,
                    ot_stripeId = s_payment_intent session,
                    ot_stripeObjectType = ''checkout.session'',
                    ot_status = ''succeeded'',
                    ot_paymentMethod = paymentMethodOf session,
                    ot_amount = pl_orderTotal pl,
                    ot_feeAmount = 0\<rparr>]\<rparr>))"

text \<open>
  \<open>tx.shoppingCart.update({ where: { id }, data: { items: { deleteMany: {} } } })\<close>:
  every item of the cart is deleted, the cart row stays.
\<close>

definition stepCart :: "(db_call \<Rightarrow> bool) \<Rightarrow> plan \<Rightarrow> db \<Rightarrow> error + db" where
  "stepCart rejects pl d =
     (if rejects CartClear then Inl Rejected
      else if list_ex (\<lambda>c. c_id c = pl_cartIdNum pl) (carts d)
      then Inr (d\<lparr>cart_items := filter (\<lambda>it. ci_cartId it \<noteq> pl_cartIdNum pl) (cart_items d)\<rparr>)
      else Inl P2025)"

definition settlementTx ::
  "(db_call \<Rightarrow> bool) \<Rightarrow> stripe_session \<Rightarrow> plan \<Rightarrow> db \<Rightarrow> error + (order \<times> db)" where
  "settlementTx rejects session pl d =
     (case stepStock rejects pl d of
        Inl e \<Rightarrow> Inl e
      | Inr d1 \<Rightarrow>
          (case stepOrder rejects pl d1 of
             Inl e \<Rightarrow> Inl e
           | Inr (newOrder, d2) \<Rightarrow>
               (case stepTransaction rejects session pl newOrder d2 of
                  Inl e \<Rightarrow> Inl e
                | Inr d3 \<Rightarrow>
                    (case stepCart rejects pl d3 of
                       Inl e \<Rightarrow> Inl e
                     | Inr d4 \<Rightarrow> Inr (newOrder, d4)))))"

text \<open>
  \<open>prisma.$transaction(async (tx) => ...)\<close>: the callback runs against the store; when
  it throws, every write it made is rolled back and the error is thrown on; when it
  returns, its writes are committed together.
\<close>

definition transaction :: "(db \<Rightarrow> error + ('a \<times> db)) \<Rightarrow> db \<Rightarrow> (error + 'a) \<times> db" where
  "transaction body d =
     (case body d of
        Inl e \<Rightarrow> (Inl e, d)
      | Inr (r, d') \<Rightarrow> (Inr r, d'))"

definition commitSettlement ::
  "(db_call \<Rightarrow> bool) \<Rightarrow> stripe_session \<Rightarrow> plan \<Rightarrow> db \<Rightarrow> (error + order) \<times> db" where
  "commitSettlement rejects session pl d = transaction (settlementTx rejects session pl) d"

text \<open>
  The handler: the reads and the loop, then the transaction, all inside one \<open>try\<close> whose
  \<open>catch\<close> logs the error and returns. Nothing it does can reach its caller as an
  exception, so the result is always \<open>Inr\<close> of the store it leaves.
\<close>

definition handleCheckoutSessionCompleted ::
  "(db_call \<Rightarrow> bool) \<Rightarrow> stripe_session \<Rightarrow> nat \<Rightarrow> db \<Rightarrow> error + db" where
  "handleCheckoutSessionCompleted rejects session now d =
     (case prepareSettlement session now d of
        Inl s \<Rightarrow> Inr d
      | Inr pl \<Rightarrow>
          (case commitSettlement rejects session pl d of
             (Inl e, d') \<Rightarrow> Inr d'
           | (Inr newOrder, d') \<Rightarrow> Inr d'))"

definition handleCheckoutSessionExpired :: "stripe_session \<Rightarrow> db \<Rightarrow> error + db" where
  "handleCheckoutSessionExpired session d = Inr d"

text \<open>
  The webhook endpoint. \<open>constructEvent\<close> is the gateway library's signature check: it
  returns the event or throws with a message. The response is its HTTP status.
\<close>

definition handleStripeWebhook ::
  "(string \<Rightarrow> string \<Rightarrow> string + stripe_event) \<Rightarrow> (db_call \<Rightarrow> bool) \<Rightarrow> nat \<Rightarrow>
   string \<Rightarrow> string \<Rightarrow> db \<Rightarrow> nat \<times> db" where
  "handleStripeWebhook constructEvent rejects now body sig d =
     (case constructEvent body sig of
        Inl msg \<Rightarrow> (400, d)
      | Inr event \<Rightarrow>
          (case (if ev_type event = ''checkout.session.completed''
                 then handleCheckoutSessionCompleted rejects (ev_object event) now d
                 else if ev_type event = ''checkout.session.expired''
                 then handleCheckoutSessionExpired (ev_object event) d
                 else Inr d) of
             Inl e \<Rightarrow> (500, d)
           | Inr d' \<Rightarrow> (200, d')))"

section \<open>The cart routes\<close>

text \<open>
  \<open>calculateTotalPrice\<close> works on JavaScript numbers: \<open>parseFloat\<close> of the decimal's
  text, \<open>*\<close> and \<open>+\<close> of doubles. A finite double is a rational. What these three compute
  is the language runtime's business, so they are parameters here; the function is the
  \<open>reduce\<close> that combines them, from 0, left to right. The fourth parameter is what becomes
  of a number handed to a DECIMAL(10,2) column: the store rounds it to two decimals, and
  \<open>to_decimal_10_2\<close> gives the rounded value in hundredths.
\<close>

record js_number_ops =
  parseFloat :: "decimal \<Rightarrow> rat"
  js_times :: "rat \<Rightarrow> rat \<Rightarrow> rat"
  js_plus :: "rat \<Rightarrow> rat \<Rightarrow> rat"
  to_decimal_10_2 :: "rat \<Rightarrow> decimal"

definition calculateTotalPrice :: "js_number_ops \<Rightarrow> cart_item list \<Rightarrow> rat" where
  "calculateTotalPrice ops items =
     foldl (\<lambda>total item.
              js_plus ops total
                (js_times ops (parseFloat ops (ci_itemPrice item)) (of_int (ci_quantity item))))
       0 items"

definition findActiveCart :: "db \<Rightarrow> nat \<Rightarrow> cart option" where
  "findActiveCart d userId =
     find (\<lambda>c. c_userId c = Some userId \<and> c_cartStatus c = ACTIVE) (carts d)"

text \<open>
  \<open>cartItem.update({ where: { id }, data })\<close>, rejected (P2025) when the row is missing, and
  rejected when the new quantity does not fit the INTEGER column. The item price the
  routes write is copied from the variant's price, a column of the same type.
\<close>

definition updateCartItem :: "nat \<Rightarrow> (cart_item \<Rightarrow> cart_item) \<Rightarrow> db \<Rightarrow> error + db" where
  "updateCartItem itemId f d =
     (if \<not> list_ex (\<lambda>x. ci_id x = itemId) (cart_items d) then Inl P2025
      else if \<not> list_all (\<lambda>x. fits_integer (ci_quantity (f x)))
                   (filter (\<lambda>x. ci_id x = itemId) (cart_items d))
      then Inl NumericOverflow
      else Inr (d\<lparr>cart_items := map (\<lambda>x. if ci_id x = itemId then f x else x) (cart_items d)\<rparr>))"

text \<open>
  \<open>cartItem.create\<close>: rejected when the quantity does not fit the INTEGER column, by the
  unique index on \<open>(cart_id, variant_id)\<close> (P2002) and by the foreign key to the product
  (P2003); the cart and the variant were read just before.
\<close>

definition createCartItem :: "nat \<Rightarrow> nat \<Rightarrow> nat \<Rightarrow> int \<Rightarrow> decimal \<Rightarrow> db \<Rightarrow> error + db" where
  "createCartItem cartId productId variantId qty pricePerUnit d =
     (if \<not> fits_integer qty then Inl NumericOverflow
      else if list_ex (\<lambda>x. ci_cartId x = cartId \<and> ci_variantId x = variantId) (cart_items d)
      then Inl P2002
      else if \<not> list_ex (\<lambda>p. p_id p = productId) (products d) then Inl P2003
      else Inr (d\<lparr>cart_items := cart_items d @
                  [\<lparr>ci_id = next_id (map ci_id (cart_items d)),
                    ci_cartId = cartId,
                    ci_productId = productId,
                    ci_variantId = variantId,
                    ci_quantity = qty,
                    ci_itemPrice = pricePerUnit\<rparr>]\<rparr>))"

text \<open>
  The recomputation every cart route ends with: \<open>findMany\<close> of the cart's items,
  \<open>calculateTotalPrice\<close>, \<open>cart.update\<close> of the cached total. The update is rejected
  (P2025) when the cart row is missing, and rejected when the total, rounded to two
  decimals, does not fit the DECIMAL(10,2) column.
\<close>

definition recalculateTotal :: "js_number_ops \<Rightarrow> nat \<Rightarrow> db \<Rightarrow> error + db" where
  "recalculateTotal ops cartId d =
     (let allItems = itemsOfCart d cartId;
          newTotalPrice = calculateTotalPrice ops allItems
      in if \<not> list_ex (\<lambda>c. c_id c = cartId) (carts d) then Inl P2025
         else if \<not> fits_decimal_10_2 (to_decimal_10_2 ops newTotalPrice) then Inl NumericOverflow
         else Inr (d\<lparr>carts := map (\<lambda>c. if c_id c = cartId
                                         then c\<lparr>c_totalPrice := to_decimal_10_2 ops newTotalPrice\<rparr>
                                         else c) (carts d)\<rparr>))"

text \<open>
  \<open>cart.create({ data: { userId, cartStatus: 'ACTIVE', totalPrice: 0.00 } })\<close>: rejected by
  the unique index on \<open>user_id\<close> (P2002) when the user has a cart row already, whatever its
  status, and by the foreign key to the user (P2003).
\<close>

definition createCart :: "nat \<Rightarrow> db \<Rightarrow> error + (cart \<times> db)" where
  "createCart userId d =
     (if list_ex (\<lambda>c. c_userId c = Some userId) (carts d) then Inl P2002
      else if \<not> list_ex (\<lambda>u. u_id u = userId) (users d) then Inl P2003
      else
        (let c = \<lparr>c_id = next_id (map c_id (carts d)),
                  c_userId = Some userId,
                  c_cartStatus = ACTIVE,
                  c_totalPrice = 0,
                  c_completedAt = None,
                  c_orderId = None\<rparr>
         in Inr (c, d\<lparr>carts := carts d @ [c]\<rparr>)))"

text \<open>
  POST /api/cart/items, for a request that names a variant. The status is the HTTP status
  of the response; the \<open>catch\<close> answers 404 for P2003 and 500 for anything else, and what
  was written before the error stays written (the route opens no transaction).
\<close>

definition addItem :: "js_number_ops \<Rightarrow> nat \<Rightarrow> nat \<Rightarrow> nat \<Rightarrow> int \<Rightarrow> db \<Rightarrow> nat \<times> db" where
  "addItem ops userId productId variantId qty d =
     (case (case findActiveCart d userId of
              Some c \<Rightarrow> Inr (c, d)
            | None \<Rightarrow> createCart userId d) of
        Inl e \<Rightarrow> (if e = P2003 then 404 else 500, d)
      | Inr (cart, d1) \<Rightarrow>
          (let cartId = c_id cart;
               cartItem = find (\<lambda>x. ci_cartId x = cartId \<and> ci_productId x = productId
                                     \<and> ci_variantId x = variantId) (cart_items d1)
           in case find (\<lambda>v. v_id v = variantId) (variants d1) of
                None \<Rightarrow> (404, d1)
              | Some variant \<Rightarrow>
                  (let pricePerUnit = v_price variant;
                       written =
                         (case cartItem of
                            Some it \<Rightarrow>
                              (case updateCartItem (ci_id it)
                                      (\<lambda>x. x\<lparr>ci_quantity := ci_quantity it + qty,
                                              ci_itemPrice := pricePerUnit\<rparr>) d1 of
                                 Inl e \<Rightarrow> Inl e
                               | Inr d2 \<Rightarrow> Inr (200, d2))
                          | None \<Rightarrow>
                              (case createCartItem cartId productId variantId qty pricePerUnit d1 of
                                 Inl e \<Rightarrow> Inl e
                               | Inr d2 \<Rightarrow> Inr (201, d2)))
                   in case written of
                        Inl e \<Rightarrow> (if e = P2003 then 404 else 500, d1)
                      | Inr (responseStatus, d2) \<Rightarrow>
                          (case recalculateTotal ops cartId d2 of
                             Inl e \<Rightarrow> (if e = P2003 then 404 else 500, d2)
                           | Inr d3 \<Rightarrow> (responseStatus, d3)))))"

text \<open>
  PUT /api/cart/items/:itemId. The item is read with its cart and its variant; the only
  column written on the item is \<open>quantity\<close>.
\<close>

definition updateItemQuantity :: "js_number_ops \<Rightarrow> nat \<Rightarrow> nat \<Rightarrow> int \<Rightarrow> db \<Rightarrow> nat \<times> db" where
  "updateItemQuantity ops userId itemId newQty d =
     (case find (\<lambda>x. ci_id x = itemId) (cart_items d) of
        None \<Rightarrow> (404, d)
      | Some cartItem \<Rightarrow>
          (case (find (\<lambda>c. c_id c = ci_cartId cartItem) (carts d),
                 find (\<lambda>v. v_id v = ci_variantId cartItem) (variants d)) of
             (Some c, Some v) \<Rightarrow>
               if c_userId c \<noteq> Some userId \<or> c_cartStatus c \<noteq> ACTIVE then (403, d)
               else
                 (case updateCartItem itemId (\<lambda>x. x\<lparr>ci_quantity := newQty\<rparr>) d of
                    Inl e \<Rightarrow> (if e = P2025 then 404 else 500, d)
                  | Inr d1 \<Rightarrow>
                      (case recalculateTotal ops (ci_cartId cartItem) d1 of
                         Inl e \<Rightarrow> (if e = P2025 then 404 else 500, d1)
                       | Inr d2 \<Rightarrow> (200, d2)))
           | _ \<Rightarrow> (500, d)))"

text \<open>DELETE /api/cart/items/:itemId.\<close>

definition removeItem :: "js_number_ops \<Rightarrow> nat \<Rightarrow> nat \<Rightarrow> db \<Rightarrow> nat \<times> db" where
  "removeItem ops userId itemId d =
     (case find (\<lambda>x. ci_id x = itemId) (cart_items d) of
        None \<Rightarrow> (404, d)
      | Some cartItem \<Rightarrow>
          (case find (\<lambda>c. c_id c = ci_cartId cartItem) (carts d) of
             None \<Rightarrow> (500, d)
           | Some c \<Rightarrow>
               if c_userId c \<noteq> Some userId \<or> c_cartStatus c \<noteq> ACTIVE then (403, d)
               else
                 (let d1 = d\<lparr>cart_items := filter (\<lambda>x. ci_id x \<noteq> itemId) (cart_items d)\<rparr>
                  in case recalculateTotal ops (ci_cartId cartItem) d1 of
                       Inl e \<Rightarrow> (if e = P2025 then 404 else 500, d1)
                     | Inr d2 \<Rightarrow> (204, d2))))"

section \<open>Direct checkout\<close>

text \<open>\<open>String.prototype.includes\<close>\<close>

fun startsWith :: "string \<Rightarrow> string \<Rightarrow> bool" where
  "startsWith s [] = True"
| "startsWith [] (c # cs) = False"
| "startsWith (x # xs) (c # cs) = (x = c \<and> startsWith xs cs)"

fun str_includes :: "string \<Rightarrow> string \<Rightarrow> bool" where
  "str_includes [] sub = (sub = [])"
| "str_includes (x # xs) sub = (startsWith (x # xs) sub \<or> str_includes xs sub)"

text \<open>The message of a thrown error: the route's own text, or the ORM's code.\<close>

fun errorMessage :: "error \<Rightarrow> string" where
  "errorMessage (BusinessError m) = m"
| "errorMessage TypeError = ''TypeError''"
| "errorMessage P2002 = ''P2002''"
| "errorMessage P2003 = ''P2003''"
| "errorMessage P2025 = ''P2025''"
| "errorMessage NumericOverflow = ''NumericOverflow''"
| "errorMessage InconsistentResult = ''InconsistentResult''"
| "errorMessage Rejected = ''Rejected''"

fun createOrderItems :: "nat \<Rightarrow> nat \<Rightarrow> cart_item list \<Rightarrow> order_item list" where
  "createOrderItems i oid [] = []"
| "createOrderItems i oid (item # items) =
     \<lparr>oi_id = i,
      oi_orderId = oid,
      oi_productId = ci_productId item,
      oi_variantId = ci_variantId item,
      oi_quantity = ci_quantity item,
      oi_priceAtPurchase = ci_itemPrice item\<rparr> # createOrderItems (Suc i) oid items"

text \<open>
  The callback of the checkout's transaction: the two business errors are thrown before
  anything is written. The four writes that follow name columns, a table and a status
  (\<open>orderStatus\<close> and \<open>totalPrice\<close> of the order, the order items, the cart status
  COMPLETED) that the tables of the migrations do not have. Whether the ORM accepts them
  is decided by its schema, which is not among the sources: \<open>rejects\<close> says which of the
  four writes are rejected. The total of the order is the number \<open>calculateTotalPrice\<close>
  returns, as it is handed to the ORM.
\<close>

datatype checkout_call = OrderInsert | OrderItemsInsert | CartComplete | CartItemsDelete

definition checkoutTx ::
  "(checkout_call \<Rightarrow> bool) \<Rightarrow> js_number_ops \<Rightarrow> nat \<Rightarrow> string \<Rightarrow> string \<Rightarrow> string option \<Rightarrow>
   nat \<Rightarrow> db \<Rightarrow> error + (order \<times> db)" where
  "checkoutTx rejects ops userId shippingAddress paymentMethod notes now d =
     (case findActiveCart d userId of
        None \<Rightarrow> Inl (BusinessError ''No active cart found to checkout.'')
      | Some activeCart \<Rightarrow>
          (case those (map (\<lambda>it. find (\<lambda>v. v_id v = ci_variantId it) (variants d))
                        (itemsOfCart d (c_id activeCart))) of
             None \<Rightarrow> Inl InconsistentResult
           | Some vs \<Rightarrow>
               (let items = itemsOfCart d (c_id activeCart)
                in if length items = 0
                   then Inl (BusinessError ''Cart is empty. Cannot create an order.'')
                   else
                     (let calculatedTotal = calculateTotalPrice ops items;
                          newOrder =
                            \<lparr>o_id = next_id (map o_id (orders d)),
                             o_userId = userId,
                             o_data = CheckoutOrder
                               \<lparr>co_orderStatus = ''PENDING'',
                                co_totalPrice = calculatedTotal,
                                co_shippingAddress = shippingAddress,
                                co_paymentMethod = paymentMethod,
                                co_notes = notes\<rparr>\<rparr>;
                          d1 = d\<lparr>orders := orders d @ [newOrder]\<rparr>;
                          d2 = d1\<lparr>order_items := order_items d1 @
                                  createOrderItems (next_id (map oi_id (order_items d1)))
                                    (o_id newOrder) items\<rparr>;
                          d3 = d2\<lparr>carts := map (\<lambda>c. if c_id c = c_id activeCart
                                                     then c\<lparr>c_cartStatus := COMPLETED,
                                                            c_completedAt := Some now,
                                                            c_orderId := Some (o_id newOrder)\<rparr>
                                                     else c) (carts d2)\<rparr>;
                          d4 = d3\<lparr>cart_items := filter (\<lambda>x. ci_cartId x \<noteq> c_id activeCart)
                                                   (cart_items d3)\<rparr>
                      in if rejects OrderInsert then Inl Rejected
                         else if rejects OrderItemsInsert then Inl Rejected
                         else if rejects CartComplete then Inl Rejected
                         else if rejects CartItemsDelete then Inl Rejected
                         else Inr (newOrder, d4)))))"

text \<open>POST /api/orders: status 201 with the order, 400 for the two business errors, 500 otherwise.\<close>

definition checkout ::
  "(checkout_call \<Rightarrow> bool) \<Rightarrow> js_number_ops \<Rightarrow> nat \<Rightarrow> string \<Rightarrow> string \<Rightarrow> string option \<Rightarrow>
   nat \<Rightarrow> db \<Rightarrow> nat \<times> db" where
  "checkout rejects ops userId shippingAddress paymentMethod notes now d =
     (case transaction (checkoutTx rejects ops userId shippingAddress paymentMethod notes now) d of
        (Inr newOrder, d') \<Rightarrow> (201, d')
      | (Inl e, d') \<Rightarrow>
          (if str_includes (errorMessage e) ''No active cart found''
              \<or> str_includes (errorMessage e) ''Cart is empty''
           then 400 else 500, d'))"

section \<open>Notions used in the statements\<close>

text \<open>The units of a variant that a list of cart items asks for.\<close>

definition purchased :: "cart_item list \<Rightarrow> nat \<Rightarrow> int" where
  "purchased items vid = sum_list (map ci_quantity (filter (\<lambda>it. ci_variantId it = vid) items))"

text \<open>
  The transactions recorded for a gateway payment identifier, and the orders they
  belong to.
\<close>

definition transactionsFor :: "string \<Rightarrow> db \<Rightarrow> order_transaction list" where
  "transactionsFor p d = filter (\<lambda>t. ot_stripeId t = p) (order_transactions d)"

definition ordersFor :: "string \<Rightarrow> db \<Rightarrow> order list" where
  "ordersFor p d =
     filter (\<lambda>ord. o_id ord \<in> set (map ot_orderId (transactionsFor p d))) (orders d)"

text \<open>The exact total of a list of cart items, in hundredths: the sum of price times quantity.\<close>

definition exactTotal :: "cart_item list \<Rightarrow> decimal" where
  "exactTotal items = sum_list (map (\<lambda>item. ci_itemPrice item * ci_quantity item) items)"

text \<open>The line items of an order.\<close>

definition lineItemsOfOrder :: "db \<Rightarrow> nat \<Rightarrow> line_item_data list" where
  "lineItemsOfOrder d oid = map li_data (filter (\<lambda>l. li_orderId l = oid) (order_line_items d))"

section \<open>A small store\<close>

text \<open>
  Two customers, each with an active cart holding one unit of the same variant, of which
  one unit is left. The first customer put the item in the cart at 10.00; the variant
  costs 12.00 now.
\<close>

definition shop :: db where
  "shop =
     \<lparr>users = [\<lparr>u_id = 1, u_email = ''ana@example.com''\<rparr>,
               \<lparr>u_id = 2, u_email = ''rui@example.com''\<rparr>],
      products = [\<lparr>p_id = 1, p_name = ''Runner''\<rparr>, \<lparr>p_id = 2, p_name = ''Cap''\<rparr>],
      variants = [\<lparr>v_id = 1, v_productId = 1, v_price = 1200, v_sku = ''RUN-42'',
                   v_stock = 1, v_title = ''42''\<rparr>,
                  \<lparr>v_id = 2, v_productId = 2, v_price = 500, v_sku = ''CAP-M'',
                   v_stock = 5, v_title = ''M''\<rparr>],
      carts = [\<lparr>c_id = 1, c_userId = Some 1, c_cartStatus = ACTIVE, c_totalPrice = 1000,
                c_completedAt = None, c_orderId = None\<rparr>,
               \<lparr>c_id = 2, c_userId = Some 2, c_cartStatus = ACTIVE, c_totalPrice = 1200,
                c_completedAt = None, c_orderId = None\<rparr>],
      cart_items = [\<lparr>ci_id = 1, ci_cartId = 1, ci_productId = 1, ci_variantId = 1,
                     ci_quantity = 1, ci_itemPrice = 1000\<rparr>,
                    \<lparr>ci_id = 2, ci_cartId = 2, ci_productId = 1, ci_variantId = 1,
                     ci_quantity = 1, ci_itemPrice = 1200\<rparr>],
      orders = [],
      order_line_items = [],
      order_items = [],
      order_transactions = []\<rparr>"

definition sessionA :: stripe_session where
  "sessionA =
     \<lparr>s_id = ''cs_A'', s_userId = 1, s_cartId = 1, s_payment_intent = ''pi_A'',
      s_payment_method_types = [''card'']\<rparr>"

definition sessionB :: stripe_session where
  "sessionB =
     \<lparr>s_id = ''cs_B'', s_userId = 2, s_cartId = 2, s_payment_intent = ''pi_B'',
      s_payment_method_types = [''card'']\<rparr>"

text \<open>A store in which nothing is rejected for outside reasons.\<close>

definition healthy :: "db_call \<Rightarrow> bool" where
  "healthy c = False"

text \<open>
  Exact arithmetic on the rationals, with rounding to the nearest hundredth, standing in
  for the number operations: doubles agree with it on whole numbers below \<open>2^53\<close>.
\<close>

definition exact_ops :: js_number_ops where
  "exact_ops =
     \<lparr>parseFloat = (\<lambda>c. of_int c / 100),
      js_times = (*),
      js_plus = (+),
      to_decimal_10_2 = (\<lambda>x. round (x * 100))\<rparr>"

text \<open>A checkout whose writes are all accepted.\<close>

definition accepted :: "checkout_call \<Rightarrow> bool" where
  "accepted c = False"

text \<open>A store that rejects the insert of the order (a lost connection, say) and nothing else.\<close>

definition insertFails :: "db_call \<Rightarrow> bool" where
  "insertFails c = (c = OrderCreate)"

text \<open>
  A signature check that accepts the signature \<open>good\<close> and reads the body as the
  completed-session event of the first customer.
\<close>

definition gatewayA :: "string \<Rightarrow> string \<Rightarrow> string + stripe_event" where
  "gatewayA body sig =
     (if sig = ''good''
      then Inr \<lparr>ev_type = ''checkout.session.completed'', ev_object = sessionA\<rparr>
      else Inl ''No signatures found matching the expected signature for payload'')"

section \<open>Facts about the store\<close>

lemma fold_max_ge: "a \<le> fold max ids (a::nat)"
  by (induction ids arbitrary: a) (auto intro: order_trans[OF max.cobounded2])

lemma fold_max_mem: "x \<in> set ids \<Longrightarrow> x \<le> fold max ids (a::nat)"
proof (induction ids arbitrary: a)
  case Nil
  then show ?case by simp
next
  case (Cons y ys)
  show ?case
  proof (cases "x = y")
    case True
    have "y \<le> max y a" by simp
    also have "\<dots> \<le> fold max ys (max y a)" by (rule fold_max_ge)
    finally show ?thesis using True by simp
  next
    case False
    with Cons show ?thesis by simp
  qed
qed

lemma next_id_fresh: "next_id ids \<notin> set ids"
proof
  assume "next_id ids \<in> set ids"
  then have "next_id ids \<le> fold max ids 0" by (rule fold_max_mem)
  then show False by (simp add: next_id_def)
qed

lemma purchased_Cons:
  "purchased (it # its) vid = (if ci_variantId it = vid then ci_quantity it else 0) + purchased its vid"
  by (simp add: purchased_def)

lemma stockUpdates_effect:
  "stockUpdates its vs = Inr vs' \<Longrightarrow>
   vs' = map (\<lambda>v. v\<lparr>v_stock := v_stock v - purchased its (v_id v)\<rparr>) vs"
proof (induction its arbitrary: vs)
  case Nil
  then show ?case by (simp add: purchased_def)
next
  case (Cons it its)
  from Cons.prems obtain vs1 where
    a: "decrementStock (ci_variantId it) (ci_quantity it) vs = Inr vs1" and
    b: "stockUpdates its vs1 = Inr vs'"
    by (auto split: sum.splits)
  from a have vs1: "vs1 = map (\<lambda>v. if v_id v = ci_variantId it
      then v\<lparr>v_stock := v_stock v - ci_quantity it\<rparr> else v) vs"
    by (auto simp: decrementStock_def split: if_splits)
  from Cons.IH[OF b] show ?case
    unfolding vs1 by (auto simp: purchased_Cons)
qed

lemma those_joinItem:
  "those (map (joinItem d) xs) = Some js \<Longrightarrow> map ji_item js = xs"
proof (induction xs arbitrary: js)
  case Nil
  then show ?case by simp
next
  case (Cons x xs)
  then show ?case
    by (auto simp: joinItem_def split: option.splits)
qed

lemma find_SomeD: "find P xs = Some x \<Longrightarrow> x \<in> set xs \<and> P x"
  by (induction xs) (auto split: if_splits)

lemma find_list_ex: "list_ex P xs \<longleftrightarrow> find P xs \<noteq> None"
  by (induction xs) auto

lemma prepare_plan:
  assumes "prepareSettlement session now d = Inr pl"
  shows "pl_items pl = itemsOfCart d (s_cartId session)"
    and "pl_cartIdNum pl = s_cartId session"
    and "pl_userIdNum pl = s_userId session"
    and "pl_orderNumber pl = ORD now (s_userId session)"
    and "pl_user pl = find (\<lambda>u. u_id u = s_userId session) (users d)"
    and "list_ex (\<lambda>c. c_id c = s_cartId session) (carts d)"
  using assms
  by (auto simp: prepareSettlement_def findCartWithItems_def those_joinItem find_list_ex
      split: sum.splits option.splits prod.splits)

lemma stepStock_effect:
  "stepStock rejects pl d = Inr d1 \<Longrightarrow>
   d1 = d\<lparr>variants := map (\<lambda>v. v\<lparr>v_stock := v_stock v - purchased (pl_items pl) (v_id v)\<rparr>) (variants d)\<rparr>"
  by (auto simp: stepStock_def split: if_splits sum.splits dest: stockUpdates_effect)

lemma stepOrder_effect:
  "stepOrder rejects pl d = Inr (newOrder, d2) \<Longrightarrow>
   \<exists>u. pl_user pl = Some u
     \<and> newOrder = \<lparr>o_id = next_id (map o_id (orders d)), o_userId = pl_userIdNum pl,
                    o_data = SettlementOrder (settlementOrderOf pl u)\<rparr>
     \<and> d2 = d\<lparr>orders := orders d @ [newOrder],
              order_line_items := order_line_items d @
                createLineItems (next_id (map li_id (order_line_items d))) (o_id newOrder)
                  (pl_lineItemsData pl)\<rparr>"
  by (auto simp: stepOrder_def Let_def split: option.splits if_splits)

lemma stepTransaction_effect:
  "stepTransaction rejects session pl newOrder d = Inr d3 \<Longrightarrow>
   s_payment_intent session \<notin> set (map ot_stripeId (order_transactions d))
   \<and> d3 = d\<lparr>order_transactions := order_transactions d @
             [\<lparr>ot_id = next_id (map ot_id (order_transactions d)),
               ot_orderId = o_id newOrder,
               ot_stripeId = s_payment_intent session,
               ot_stripeObjectType = ''checkout.session'',
               ot_status = ''succeeded'',
               ot_paymentMethod = paymentMethodOf session,
               ot_amount = pl_orderTotal pl,
               ot_feeAmount = 0\<rparr>]\<rparr>"
  by (auto simp: stepTransaction_def split: if_splits)

lemma stepCart_effect:
  "stepCart rejects pl d = Inr d4 \<Longrightarrow>
   d4 = d\<lparr>cart_items := filter (\<lambda>it. ci_cartId it \<noteq> pl_cartIdNum pl) (cart_items d)\<rparr>"
  by (auto simp: stepCart_def split: if_splits)

lemma handle_unfold:
  "prepareSettlement session now d = Inr pl \<Longrightarrow>
   handleCheckoutSessionCompleted rejects session now d =
     (case settlementTx rejects session pl d of Inl e \<Rightarrow> Inr d | Inr (newOrder, d') \<Rightarrow> Inr d')"
  by (simp add: handleCheckoutSessionCompleted_def commitSettlement_def transaction_def
      split: sum.splits prod.splits)

lemma createLineItems_data: "map li_data (createLineItems i oid xs) = xs"
  by (induction xs arbitrary: i) auto

lemma createLineItems_orderId: "list_all (\<lambda>l. li_orderId l = oid) (createLineItems i oid xs)"
  by (induction xs arbitrary: i) auto

text \<open>
  Claim C1. For a completed-session event that reaches the settlement step (the reads and
  the stock check have produced a plan), the four writes of the transaction are one unit:
  when the stock decrement, the order insert, the transaction insert or the clearing of the
  cart fails, the handler leaves the store exactly as it found it, so no order, no
  transaction row, no decrement and no deletion persist; when all four succeed, the store
  the handler leaves has all four effects together: every variant's stock lowered by the
  quantity the cart asked for, the new order with its line items, the transaction row that
  points to it, and the cart without items.
\<close>

theorem settlement_atomic:
  assumes prep: "prepareSettlement session now d = Inr pl"
  shows "(\<forall>e. stepStock rejects pl d = Inl e \<longrightarrow>
            handleCheckoutSessionCompleted rejects session now d = Inr d)
       \<and> (\<forall>d1 e. stepStock rejects pl d = Inr d1 \<and> stepOrder rejects pl d1 = Inl e \<longrightarrow>
            handleCheckoutSessionCompleted rejects session now d = Inr d)
       \<and> (\<forall>d1 newOrder d2 e. stepStock rejects pl d = Inr d1
              \<and> stepOrder rejects pl d1 = Inr (newOrder, d2)
              \<and> stepTransaction rejects session pl newOrder d2 = Inl e \<longrightarrow>
            handleCheckoutSessionCompleted rejects session now d = Inr d)
       \<and> (\<forall>d1 newOrder d2 d3 e. stepStock rejects pl d = Inr d1
              \<and> stepOrder rejects pl d1 = Inr (newOrder, d2)
              \<and> stepTransaction rejects session pl newOrder d2 = Inr d3
              \<and> stepCart rejects pl d3 = Inl e \<longrightarrow>
            handleCheckoutSessionCompleted rejects session now d = Inr d)
       \<and> (\<forall>d1 newOrder d2 d3 d4. stepStock rejects pl d = Inr d1
              \<and> stepOrder rejects pl d1 = Inr (newOrder, d2)
              \<and> stepTransaction rejects session pl newOrder d2 = Inr d3
              \<and> stepCart rejects pl d3 = Inr d4 \<longrightarrow>
            handleCheckoutSessionCompleted rejects session now d = Inr d4
            \<and> variants d4 =
                map (\<lambda>v. v\<lparr>v_stock := v_stock v
                          - purchased (itemsOfCart d (s_cartId session)) (v_id v)\<rparr>) (variants d)
            \<and> orders d4 = orders d @ [newOrder]
            \<and> (\<exists>ls. order_line_items d4 = order_line_items d @ ls
                   \<and> map li_data ls = pl_lineItemsData pl
                   \<and> list_all (\<lambda>l. li_orderId l = o_id newOrder) ls)
            \<and> (\<exists>t. order_transactions d4 = order_transactions d @ [t]
                   \<and> ot_orderId t = o_id newOrder
                   \<and> ot_stripeId t = s_payment_intent session
                   \<and> ot_amount t = pl_orderTotal pl)
            \<and> cart_items d4 = filter (\<lambda>it. ci_cartId it \<noteq> s_cartId session) (cart_items d)
            \<and> users d4 = users d \<and> products d4 = products d \<and> carts d4 = carts d
            \<and> order_items d4 = order_items d)"
proof (intro conjI allI impI)
  fix e
  assume "stepStock rejects pl d = Inl e"
  then show "handleCheckoutSessionCompleted rejects session now d = Inr d"
    by (simp add: handle_unfold[OF prep] settlementTx_def)
next
  fix d1 e
  assume "stepStock rejects pl d = Inr d1 \<and> stepOrder rejects pl d1 = Inl e"
  then show "handleCheckoutSessionCompleted rejects session now d = Inr d"
    by (simp add: handle_unfold[OF prep] settlementTx_def)
next
  fix d1 newOrder d2 e
  assume "stepStock rejects pl d = Inr d1 \<and> stepOrder rejects pl d1 = Inr (newOrder, d2)
    \<and> stepTransaction rejects session pl newOrder d2 = Inl e"
  then show "handleCheckoutSessionCompleted rejects session now d = Inr d"
    by (simp add: handle_unfold[OF prep] settlementTx_def)
next
  fix d1 newOrder d2 d3 e
  assume "stepStock rejects pl d = Inr d1 \<and> stepOrder rejects pl d1 = Inr (newOrder, d2)
    \<and> stepTransaction rejects session pl newOrder d2 = Inr d3 \<and> stepCart rejects pl d3 = Inl e"
  then show "handleCheckoutSessionCompleted rejects session now d = Inr d"
    by (simp add: handle_unfold[OF prep] settlementTx_def)
next
  fix d1 newOrder d2 d3 d4
  assume all: "stepStock rejects pl d = Inr d1 \<and> stepOrder rejects pl d1 = Inr (newOrder, d2)
    \<and> stepTransaction rejects session pl newOrder d2 = Inr d3 \<and> stepCart rejects pl d3 = Inr d4"
  then show "handleCheckoutSessionCompleted rejects session now d = Inr d4"
    by (simp add: handle_unfold[OF prep] settlementTx_def)
  note pp = prepare_plan[OF prep]
  from all have e1: "d1 = d\<lparr>variants := map (\<lambda>v. v\<lparr>v_stock := v_stock v
      - purchased (pl_items pl) (v_id v)\<rparr>) (variants d)\<rparr>"
    by (auto dest: stepStock_effect)
  from all obtain u where
    e2: "d2 = d1\<lparr>orders := orders d1 @ [newOrder],
              order_line_items := order_line_items d1 @
                createLineItems (next_id (map li_id (order_line_items d1))) (o_id newOrder)
                  (pl_lineItemsData pl)\<rparr>"
    by (auto dest: stepOrder_effect)
  from all have e3: "d3 = d2\<lparr>order_transactions := order_transactions d2 @
             [\<lparr>ot_id = next_id (map ot_id (order_transactions d2)),
               ot_orderId = o_id newOrder,
               ot_stripeId = s_payment_intent session,
               ot_stripeObjectType = ''checkout.session'',
               ot_status = ''succeeded'',
               ot_paymentMethod = paymentMethodOf session,
               ot_amount = pl_orderTotal pl,
               ot_feeAmount = 0\<rparr>]\<rparr>"
    by (auto dest: stepTransaction_effect)
  from all have e4: "d4 = d3\<lparr>cart_items := filter (\<lambda>it. ci_cartId it \<noteq> pl_cartIdNum pl) (cart_items d3)\<rparr>"
    by (auto dest: stepCart_effect)
  show "variants d4 = map (\<lambda>v. v\<lparr>v_stock := v_stock v
      - purchased (itemsOfCart d (s_cartId session)) (v_id v)\<rparr>) (variants d)"
    by (simp add: e1 e2 e3 e4 pp)
  show "orders d4 = orders d @ [newOrder]"
    by (simp add: e1 e2 e3 e4)
  show "\<exists>ls. order_line_items d4 = order_line_items d @ ls
      \<and> map li_data ls = pl_lineItemsData pl
      \<and> list_all (\<lambda>l. li_orderId l = o_id newOrder) ls"
    by (simp add: e1 e2 e3 e4 createLineItems_data createLineItems_orderId)
  show "\<exists>t. order_transactions d4 = order_transactions d @ [t]
      \<and> ot_orderId t = o_id newOrder
      \<and> ot_stripeId t = s_payment_intent session
      \<and> ot_amount t = pl_orderTotal pl"
    by (simp add: e1 e2 e3 e4)
  show "cart_items d4 = filter (\<lambda>it. ci_cartId it \<noteq> s_cartId session) (cart_items d)"
    by (simp add: e1 e2 e3 e4 pp)
  show "users d4 = users d" by (simp add: e1 e2 e3 e4)
  show "products d4 = products d" by (simp add: e1 e2 e3 e4)
  show "carts d4 = carts d" by (simp add: e1 e2 e3 e4)
  show "order_items d4 = order_items d" by (simp add: e1 e2 e3 e4)
qed

text \<open>The definitions that evaluate the settlement on a concrete store.\<close>

lemmas eval_defs =
  prepareSettlement_def findCartWithItems_def itemsOfCart_def joinItem_def lineItemOf_def
  stepStock_def decrementStock_def stepOrder_def orderNumbers_def settlementOrderOf_def
  fits_decimal_10_2_def fits_integer_def next_id_def stepTransaction_def paymentMethodOf_def
  stepCart_def
  settlementTx_def transaction_def commitSettlement_def handleCheckoutSessionCompleted_def
  shop_def sessionA_def sessionB_def healthy_def

theorem settlement_atomic_witness:
  "(\<exists>pl d1 newOrder d2 d3 d4.
     prepareSettlement sessionA 1000 shop = Inr pl
     \<and> stepStock healthy pl shop = Inr d1
     \<and> stepOrder healthy pl d1 = Inr (newOrder, d2)
     \<and> stepTransaction healthy sessionA pl newOrder d2 = Inr d3
     \<and> stepCart healthy pl d3 = Inr d4
     \<and> handleCheckoutSessionCompleted healthy sessionA 1000 shop = Inr d4
     \<and> map v_stock (variants d4) = [0, 5]
     \<and> map o_id (orders d4) = [1]
     \<and> map ci_id (cart_items d4) = [2])
   \<and> (\<exists>pl d1.
     prepareSettlement sessionA 1000 shop = Inr pl
     \<and> stepStock insertFails pl shop = Inr d1
     \<and> stepOrder insertFails pl d1 = Inl Rejected
     \<and> handleCheckoutSessionCompleted insertFails sessionA 1000 shop = Inr shop)"
proof
  have "\<exists>pl. prepareSettlement sessionA 1000 shop = Inr pl
     \<and> (\<exists>d1. stepStock healthy pl shop = Inr d1
     \<and> (\<exists>newOrder d2. stepOrder healthy pl d1 = Inr (newOrder, d2)
     \<and> (\<exists>d3. stepTransaction healthy sessionA pl newOrder d2 = Inr d3
     \<and> (\<exists>d4. stepCart healthy pl d3 = Inr d4))))"
    by (simp add: eval_defs Let_def)
  then obtain pl d1 newOrder d2 d3 d4 where
    p: "prepareSettlement sessionA 1000 shop = Inr pl" and
    s: "stepStock healthy pl shop = Inr d1 \<and> stepOrder healthy pl d1 = Inr (newOrder, d2)
       \<and> stepTransaction healthy sessionA pl newOrder d2 = Inr d3
       \<and> stepCart healthy pl d3 = Inr d4"
    by blast
  from settlement_atomic[OF p, of healthy] s
  have r: "handleCheckoutSessionCompleted healthy sessionA 1000 shop = Inr d4
      \<and> variants d4 = map (\<lambda>v. v\<lparr>v_stock := v_stock v
          - purchased (itemsOfCart shop (s_cartId sessionA)) (v_id v)\<rparr>) (variants shop)
      \<and> orders d4 = orders shop @ [newOrder]
      \<and> cart_items d4 = filter (\<lambda>it. ci_cartId it \<noteq> s_cartId sessionA) (cart_items shop)"
    by blast
  from s have "o_id newOrder = 1"
    by (auto dest!: stepStock_effect stepOrder_effect simp: shop_def next_id_def)
  with r have q: "map v_stock (variants d4) = [0, 5] \<and> map o_id (orders d4) = [1]
      \<and> map ci_id (cart_items d4) = [2]"
    by (simp add: shop_def sessionA_def itemsOfCart_def purchased_def)
  show "\<exists>pl d1 newOrder d2 d3 d4.
     prepareSettlement sessionA 1000 shop = Inr pl
     \<and> stepStock healthy pl shop = Inr d1
     \<and> stepOrder healthy pl d1 = Inr (newOrder, d2)
     \<and> stepTransaction healthy sessionA pl newOrder d2 = Inr d3
     \<and> stepCart healthy pl d3 = Inr d4
     \<and> handleCheckoutSessionCompleted healthy sessionA 1000 shop = Inr d4
     \<and> map v_stock (variants d4) = [0, 5]
     \<and> map o_id (orders d4) = [1]
     \<and> map ci_id (cart_items d4) = [2]"
    apply (rule exI[of _ pl], rule exI[of _ d1], rule exI[of _ newOrder])
    apply (rule exI[of _ d2], rule exI[of _ d3], rule exI[of _ d4])
    using p s r q apply simp
    done
next
  have "\<exists>pl. prepareSettlement sessionA 1000 shop = Inr pl
     \<and> (\<exists>d1. stepStock insertFails pl shop = Inr d1
           \<and> stepOrder insertFails pl d1 = Inl Rejected)"
    by (simp add: eval_defs insertFails_def Let_def)
  then obtain pl d1 where
    p: "prepareSettlement sessionA 1000 shop = Inr pl" and
    s: "stepStock insertFails pl shop = Inr d1 \<and> stepOrder insertFails pl d1 = Inl Rejected"
    by blast
  from settlement_atomic[OF p, of insertFails] s
  have "handleCheckoutSessionCompleted insertFails sessionA 1000 shop = Inr shop"
    by blast
  with p s show "\<exists>pl d1.
     prepareSettlement sessionA 1000 shop = Inr pl
     \<and> stepStock insertFails pl shop = Inr d1
     \<and> stepOrder insertFails pl d1 = Inl Rejected
     \<and> handleCheckoutSessionCompleted insertFails sessionA 1000 shop = Inr shop"
    by blast
qed

lemma handle_total:
  "\<exists>d'. handleCheckoutSessionCompleted rejects session now d = Inr d'"
  by (simp add: handleCheckoutSessionCompleted_def split: sum.splits prod.splits)

lemma handle_result:
  assumes h: "handleCheckoutSessionCompleted rejects session now d = Inr d'" and ne: "d' \<noteq> d"
  shows "\<exists>pl u newOrder t.
      prepareSettlement session now d = Inr pl
    \<and> pl_user pl = Some u
    \<and> newOrder = \<lparr>o_id = next_id (map o_id (orders d)), o_userId = pl_userIdNum pl,
                   o_data = SettlementOrder (settlementOrderOf pl u)\<rparr>
    \<and> t = \<lparr>ot_id = next_id (map ot_id (order_transactions d)),
            ot_orderId = o_id newOrder,
            ot_stripeId = s_payment_intent session,
            ot_stripeObjectType = ''checkout.session'',
            ot_status = ''succeeded'',
            ot_paymentMethod = paymentMethodOf session,
            ot_amount = pl_orderTotal pl,
            ot_feeAmount = 0\<rparr>
    \<and> s_payment_intent session \<notin> set (map ot_stripeId (order_transactions d))
    \<and> d' = d\<lparr>variants := map (\<lambda>v. v\<lparr>v_stock := v_stock v
                    - purchased (itemsOfCart d (s_cartId session)) (v_id v)\<rparr>) (variants d),
             orders := orders d @ [newOrder],
             order_line_items := order_line_items d @
                createLineItems (next_id (map li_id (order_line_items d))) (o_id newOrder)
                  (pl_lineItemsData pl),
             order_transactions := order_transactions d @ [t],
             cart_items := filter (\<lambda>it. ci_cartId it \<noteq> s_cartId session) (cart_items d)\<rparr>"
proof -
  from h ne obtain pl where prep: "prepareSettlement session now d = Inr pl"
    by (auto simp: handleCheckoutSessionCompleted_def split: sum.splits)
  note pp = prepare_plan[OF prep]
  from h ne obtain newOrder where tx: "settlementTx rejects session pl d = Inr (newOrder, d')"
    by (auto simp: handle_unfold[OF prep] split: sum.splits)
  then obtain d1 d2 d3 where
    s1: "stepStock rejects pl d = Inr d1" and
    s2: "stepOrder rejects pl d1 = Inr (newOrder, d2)" and
    s3: "stepTransaction rejects session pl newOrder d2 = Inr d3" and
    s4: "stepCart rejects pl d3 = Inr d'"
    by (auto simp: settlementTx_def split: sum.splits prod.splits)
  note e1 = stepStock_effect[OF s1]
  from stepOrder_effect[OF s2] obtain u where
    u: "pl_user pl = Some u" and
    no: "newOrder = \<lparr>o_id = next_id (map o_id (orders d1)), o_userId = pl_userIdNum pl,
                    o_data = SettlementOrder (settlementOrderOf pl u)\<rparr>" and
    e2: "d2 = d1\<lparr>orders := orders d1 @ [newOrder],
              order_line_items := order_line_items d1 @
                createLineItems (next_id (map li_id (order_line_items d1))) (o_id newOrder)
                  (pl_lineItemsData pl)\<rparr>"
    by blast
  note e3 = stepTransaction_effect[OF s3]
  note e4 = stepCart_effect[OF s4]
  from e3 have fresh: "s_payment_intent session \<notin> set (map ot_stripeId (order_transactions d))"
    by (simp add: e2 e1)
  have d': "d' = d\<lparr>variants := map (\<lambda>v. v\<lparr>v_stock := v_stock v
                    - purchased (itemsOfCart d (s_cartId session)) (v_id v)\<rparr>) (variants d),
             orders := orders d @ [newOrder],
             order_line_items := order_line_items d @
                createLineItems (next_id (map li_id (order_line_items d))) (o_id newOrder)
                  (pl_lineItemsData pl),
             order_transactions := order_transactions d @
                [\<lparr>ot_id = next_id (map ot_id (order_transactions d)),
            ot_orderId = o_id newOrder,
            ot_stripeId = s_payment_intent session,
            ot_stripeObjectType = ''checkout.session'',
            ot_status = ''succeeded'',
            ot_paymentMethod = paymentMethodOf session,
            ot_amount = pl_orderTotal pl,
            ot_feeAmount = 0\<rparr>],
             cart_items := filter (\<lambda>it. ci_cartId it \<noteq> s_cartId session) (cart_items d)\<rparr>"
    using e3 by (simp add: e4 e2 e1 pp)
  from no have no': "newOrder = \<lparr>o_id = next_id (map o_id (orders d)), o_userId = pl_userIdNum pl,
                    o_data = SettlementOrder (settlementOrderOf pl u)\<rparr>"
    by (simp add: e1)
  from prep u no' fresh d' show ?thesis by blast
qed

lemma handle_noop_when_recorded:
  assumes "s_payment_intent session \<in> set (map ot_stripeId (order_transactions d))"
  shows "handleCheckoutSessionCompleted rejects session now d = Inr d"
proof -
  obtain d' where h: "handleCheckoutSessionCompleted rejects session now d = Inr d'"
    using handle_total by blast
  have "d' = d"
  proof (rule ccontr)
    assume "d' \<noteq> d"
    from handle_result[OF h this] assms show False by blast
  qed
  with h show ?thesis by simp
qed

lemma distinct_filter_le1:
  "distinct (map f xs) \<Longrightarrow> length (filter (\<lambda>x. f x = a) xs) \<le> 1"
proof (induction xs)
  case Nil
  then show ?case by simp
next
  case (Cons x xs)
  show ?case
  proof (cases "f x = a")
    case True
    with Cons.prems have "filter (\<lambda>y. f y = a) xs = []"
      by (auto simp: filter_empty_conv intro: rev_image_eqI)
    with True show ?thesis by simp
  next
    case False
    with Cons show ?thesis by simp
  qed
qed

lemma filter_mem_le1:
  assumes "distinct (map f xs)" and "length ys \<le> 1"
  shows "length (filter (\<lambda>x. f x \<in> set ys) xs) \<le> 1"
proof (cases ys)
  case Nil
  then show ?thesis by simp
next
  case (Cons y zs)
  with assms(2) have "ys = [y]" by simp
  then show ?thesis using distinct_filter_le1[OF assms(1), of y] by simp
qed

lemma transactionsFor_le1:
  "distinct (map ot_stripeId (order_transactions d)) \<Longrightarrow> length (transactionsFor p d) \<le> 1"
  unfolding transactionsFor_def by (rule distinct_filter_le1)

lemma ordersFor_le1:
  "distinct (map ot_stripeId (order_transactions d)) \<Longrightarrow> distinct (map o_id (orders d)) \<Longrightarrow>
   length (ordersFor p d) \<le> 1"
  unfolding ordersFor_def
  using transactionsFor_le1[of d p] by (intro filter_mem_le1) simp_all

lemma settled_counts:
  assumes h: "handleCheckoutSessionCompleted rejects session now d = Inr d'" and ne: "d' \<noteq> d"
  shows "length (transactionsFor (s_payment_intent session) d') = 1"
    and "length (ordersFor (s_payment_intent session) d') = 1"
    and "length (orders d') = Suc (length (orders d))"
    and "s_payment_intent session \<in> set (map ot_stripeId (order_transactions d'))"
proof -
  from handle_result[OF h ne] obtain pl :: plan and u :: user and newOrder t where
    no0: "newOrder = \<lparr>o_id = next_id (map o_id (orders d)), o_userId = pl_userIdNum pl,
                   o_data = SettlementOrder (settlementOrderOf pl u)\<rparr>" and
    t0: "t = \<lparr>ot_id = next_id (map ot_id (order_transactions d)),
            ot_orderId = o_id newOrder,
            ot_stripeId = s_payment_intent session,
            ot_stripeObjectType = ''checkout.session'',
            ot_status = ''succeeded'',
            ot_paymentMethod = paymentMethodOf session,
            ot_amount = pl_orderTotal pl,
            ot_feeAmount = 0\<rparr>" and
    fresh: "s_payment_intent session \<notin> set (map ot_stripeId (order_transactions d))" and
    d': "d' = d\<lparr>variants := map (\<lambda>v. v\<lparr>v_stock := v_stock v
                    - purchased (itemsOfCart d (s_cartId session)) (v_id v)\<rparr>) (variants d),
             orders := orders d @ [newOrder],
             order_line_items := order_line_items d @
                createLineItems (next_id (map li_id (order_line_items d))) (o_id newOrder)
                  (pl_lineItemsData pl),
             order_transactions := order_transactions d @ [t],
             cart_items := filter (\<lambda>it. ci_cartId it \<noteq> s_cartId session) (cart_items d)\<rparr>"
    by blast
  have no: "o_id newOrder = next_id (map o_id (orders d))" by (simp add: no0)
  have t: "ot_orderId t = o_id newOrder" "ot_stripeId t = s_payment_intent session"
    by (simp_all add: t0)
  have os: "orders d' = orders d @ [newOrder]" by (simp add: d')
  have ts: "order_transactions d' = order_transactions d @ [t]" by (simp add: d')
  have old: "filter (\<lambda>x. ot_stripeId x = s_payment_intent session) (order_transactions d) = []"
    using fresh by (force simp: filter_empty_conv image_iff)
  have tf: "transactionsFor (s_payment_intent session) d' = [t]"
    by (simp add: transactionsFor_def ts old t)
  then show "length (transactionsFor (s_payment_intent session) d') = 1" by simp
  have "filter (\<lambda>ord. o_id ord = next_id (map o_id (orders d))) (orders d) = []"
    using next_id_fresh[of "map o_id (orders d)"] by (force simp: filter_empty_conv image_iff)
  then show "length (ordersFor (s_payment_intent session) d') = 1"
    by (simp add: ordersFor_def tf os t no)
  show "length (orders d') = Suc (length (orders d))" by (simp add: os)
  show "s_payment_intent session \<in> set (map ot_stripeId (order_transactions d'))"
    by (simp add: ts t)
qed

text \<open>
  Claim C2. Settlement is idempotent. On a store that respects the unique index on the
  gateway payment identifier and the primary key of the orders, delivering the same
  completed-session event twice (same session, same payment identifier; the clock and the
  store's rejections may differ between the deliveries) leaves at most one transaction row
  and at most one order for that payment, and at most one order more than before; and when
  the first delivery settled the payment, the second changes nothing: exactly one
  transaction row and exactly one order for the payment persist, never a second order.
\<close>

theorem settlement_idempotent:
  assumes uniq: "distinct (map ot_stripeId (order_transactions d))"
    and pk: "distinct (map o_id (orders d))"
    and first: "handleCheckoutSessionCompleted rejects1 session now1 d = Inr d1"
    and second: "handleCheckoutSessionCompleted rejects2 session now2 d1 = Inr d2"
  shows "length (transactionsFor (s_payment_intent session) d2) \<le> 1
       \<and> length (ordersFor (s_payment_intent session) d2) \<le> 1
       \<and> length (orders d2) \<le> Suc (length (orders d))
       \<and> (d1 \<noteq> d \<longrightarrow>
            d2 = d1
          \<and> length (transactionsFor (s_payment_intent session) d2) = 1
          \<and> length (ordersFor (s_payment_intent session) d2) = 1
          \<and> length (orders d2) = Suc (length (orders d)))"
proof (cases "d1 = d")
  case True
  show ?thesis
  proof (cases "d2 = d")
    case True
    with \<open>d1 = d\<close> show ?thesis
      using transactionsFor_le1[OF uniq, of "s_payment_intent session"]
        ordersFor_le1[OF uniq pk, of "s_payment_intent session"] by simp
  next
    case False
    with second \<open>d1 = d\<close> have
      h: "handleCheckoutSessionCompleted rejects2 session now2 d = Inr d2" and ne: "d2 \<noteq> d"
      by simp_all
    from settled_counts[OF h ne] \<open>d1 = d\<close> show ?thesis by simp
  qed
next
  case False
  note c = settled_counts[OF first False]
  from handle_noop_when_recorded[OF c(4), of rejects2 now2] second have "d2 = d1" by simp
  with c False show ?thesis by simp
qed

theorem settlement_idempotent_witness:
  "\<exists>d1 d2. distinct (map ot_stripeId (order_transactions shop))
     \<and> distinct (map o_id (orders shop))
     \<and> handleCheckoutSessionCompleted healthy sessionA 1000 shop = Inr d1
     \<and> handleCheckoutSessionCompleted healthy sessionA 1001 d1 = Inr d2
     \<and> d1 \<noteq> shop
     \<and> d2 = d1
     \<and> length (transactionsFor (s_payment_intent sessionA) d2) = 1
     \<and> length (ordersFor (s_payment_intent sessionA) d2) = 1
     \<and> length (orders d2) = 1"
proof -
  obtain d1 where f: "handleCheckoutSessionCompleted healthy sessionA 1000 shop = Inr d1"
    using handle_total by blast
  obtain d2 where s: "handleCheckoutSessionCompleted healthy sessionA 1001 d1 = Inr d2"
    using handle_total by blast
  have u: "distinct (map ot_stripeId (order_transactions shop))" by (simp add: shop_def)
  have k: "distinct (map o_id (orders shop))" by (simp add: shop_def)
  have "orders d1 \<noteq> orders shop"
    using f by (auto simp: eval_defs Let_def)
  then have ne: "d1 \<noteq> shop" by auto
  have "orders shop = []" by (simp add: shop_def)
  with settlement_idempotent[OF u k f s] ne
  have "d2 = d1
     \<and> length (transactionsFor (s_payment_intent sessionA) d2) = 1
     \<and> length (ordersFor (s_payment_intent sessionA) d2) = 1
     \<and> length (orders d2) = 1"
    by auto
  with f s u k ne show ?thesis by blast
qed

lemma lineItemsLoop_result:
  "lineItemsLoop js tot0 acc = Inr (tot0', acc') \<Longrightarrow>
   acc' = acc @ map lineItemOf js
   \<and> amount_value tot0' = amount_value tot0 + sum_list (map lid_total (map lineItemOf js))"
proof (induction js arbitrary: tot0 acc)
  case Nil
  then show ?case by simp
next
  case (Cons j js)
  from Cons.prems have
    r: "lineItemsLoop js (Decimal (amount_value tot0 + v_price (ji_variant j) * ci_quantity (ji_item j)))
          (acc @ [lineItemOf j]) = Inr (tot0', acc')"
    by (simp add: Let_def split: if_splits)
  from Cons.IH[OF r] show ?case
    by (simp add: lineItemOf_def)
qed

lemma toNumber_value: "toNumber a = Inr x \<Longrightarrow> x = amount_value a"
  by (cases a) auto

lemma prepare_lines:
  assumes "prepareSettlement session now d = Inr pl"
  shows "\<exists>js. those (map (joinItem d) (itemsOfCart d (s_cartId session))) = Some js
     \<and> pl_lineItemsData pl = map lineItemOf js
     \<and> pl_orderTotal pl = sum_list (map lid_total (pl_lineItemsData pl))"
  using assms
  by (auto simp: prepareSettlement_def findCartWithItems_def
      split: sum.splits option.splits prod.splits
      dest!: lineItemsLoop_result toNumber_value)

lemma lineItemsOfOrder_fresh:
  assumes fk: "list_all (\<lambda>l. li_orderId l \<in> set (map o_id (orders d))) (order_line_items d)"
  shows "filter (\<lambda>l. li_orderId l = next_id (map o_id (orders d))) (order_line_items d) = []"
proof -
  have "li_orderId l \<noteq> next_id (map o_id (orders d))" if "l \<in> set (order_line_items d)" for l
  proof
    assume e: "li_orderId l = next_id (map o_id (orders d))"
    from fk that have "li_orderId l \<in> set (map o_id (orders d))"
      by (simp add: list_all_iff)
    with e next_id_fresh[of "map o_id (orders d)"] show False by simp
  qed
  then show ?thesis by (simp add: filter_empty_conv)
qed

lemma filter_createLineItems:
  "filter (\<lambda>l. li_orderId l = oid) (createLineItems i oid xs) = createLineItems i oid xs"
  by (induction xs arbitrary: i) auto

text \<open>
  Claim C9. Every order that the settlement of a completed session creates has tax amount
  0 and shipping amount 0, and its subtotal equals its total amount, which equals the sum
  of the line totals of its line items: the settlement path adds no tax and no shipping.
  (The store respects the foreign key from line items to orders, so the line items found
  under the new order's id are the ones created with it.)
\<close>

theorem settlement_order_totals:
  assumes h: "handleCheckoutSessionCompleted rejects session now d = Inr d'"
    and ne: "d' \<noteq> d"
    and fk: "list_all (\<lambda>l. li_orderId l \<in> set (map o_id (orders d))) (order_line_items d)"
  shows "\<exists>newOrder so.
      orders d' = orders d @ [newOrder]
    \<and> o_data newOrder = SettlementOrder so
    \<and> so_taxAmount so = 0
    \<and> so_shippingAmount so = 0
    \<and> so_subtotal so = so_totalAmount so
    \<and> so_totalAmount so = sum_list (map lid_total (lineItemsOfOrder d' (o_id newOrder)))"
proof -
  from handle_result[OF h ne] obtain pl :: plan and u :: user and newOrder t where
    prep: "prepareSettlement session now d = Inr pl" and
    no0: "newOrder = \<lparr>o_id = next_id (map o_id (orders d)), o_userId = pl_userIdNum pl,
                   o_data = SettlementOrder (settlementOrderOf pl u)\<rparr>" and
    d': "d' = d\<lparr>variants := map (\<lambda>v. v\<lparr>v_stock := v_stock v
                    - purchased (itemsOfCart d (s_cartId session)) (v_id v)\<rparr>) (variants d),
             orders := orders d @ [newOrder],
             order_line_items := order_line_items d @
                createLineItems (next_id (map li_id (order_line_items d))) (o_id newOrder)
                  (pl_lineItemsData pl),
             order_transactions := order_transactions d @ [t],
             cart_items := filter (\<lambda>it. ci_cartId it \<noteq> s_cartId session) (cart_items d)\<rparr>"
    by blast
  from prepare_lines[OF prep] have
    tot: "pl_orderTotal pl = sum_list (map lid_total (pl_lineItemsData pl))" by blast
  have oid: "o_id newOrder = next_id (map o_id (orders d))" by (simp add: no0)
  have lines: "lineItemsOfOrder d' (o_id newOrder) = pl_lineItemsData pl"
    by (simp add: lineItemsOfOrder_def d' filter_createLineItems createLineItems_data
        lineItemsOfOrder_fresh[OF fk, folded oid])
  let ?so = "settlementOrderOf pl u"
  have "orders d' = orders d @ [newOrder]" by (simp add: d')
  moreover have "o_data newOrder = SettlementOrder ?so" by (simp add: no0)
  moreover have "so_taxAmount ?so = 0" "so_shippingAmount ?so = 0"
    "so_subtotal ?so = so_totalAmount ?so"
    by (simp_all add: settlementOrderOf_def)
  moreover have "so_totalAmount ?so = sum_list (map lid_total (lineItemsOfOrder d' (o_id newOrder)))"
    by (simp add: settlementOrderOf_def lines tot)
  ultimately show ?thesis by blast
qed

text \<open>The settlement of the first customer's session on the small store.\<close>

lemma handleA_settles:
  "handleCheckoutSessionCompleted healthy sessionA 1000 shop =
     Inr (shop\<lparr>variants := [\<lparr>v_id = 1, v_productId = 1, v_price = 1200, v_sku = ''RUN-42'',
                   v_stock = 0, v_title = ''42''\<rparr>,
                  \<lparr>v_id = 2, v_productId = 2, v_price = 500, v_sku = ''CAP-M'',
                   v_stock = 5, v_title = ''M''\<rparr>],
       orders := [\<lparr>o_id = 1, o_userId = 1,
              o_data =
                SettlementOrder
                 \<lparr>so_orderNumber = ORD 1000 1,
                    so_email = ''ana@example.com'', so_subtotal = 1200,
                    so_taxAmount = 0, so_shippingAmount = 0,
                    so_totalAmount = 1200, so_status = ''processing'',
                    so_financialStatus = ''paid'',
                    so_fulfillmentStatus = ''unfulfilled''\<rparr>\<rparr>],
       order_line_items := [\<lparr>li_id = 1, li_orderId = 1,
              li_data =
                \<lparr>lid_productId = 1, lid_variantId = 1, lid_quantity = 1,
                   lid_price = 1200, lid_total = 1200,
                   lid_title = ''Runner'', lid_variantTitle = ''42'',
                   lid_sku = ''RUN-42''\<rparr>\<rparr>],
       order_transactions := [\<lparr>ot_id = 1, ot_orderId = 1, ot_stripeId = ''pi_A'',
              ot_stripeObjectType = ''checkout.session'',
              ot_status = ''succeeded'', ot_paymentMethod = ''card'',
              ot_amount = 1200, ot_feeAmount = 0\<rparr>],
       cart_items := [\<lparr>ci_id = 2, ci_cartId = 2, ci_productId = 1, ci_variantId = 1,
                     ci_quantity = 1, ci_itemPrice = 1200\<rparr>]\<rparr>)"
  by (simp add: eval_defs Let_def)

theorem settlement_order_totals_witness:
  "\<exists>d' newOrder so.
      handleCheckoutSessionCompleted healthy sessionA 1000 shop = Inr d'
    \<and> d' \<noteq> shop
    \<and> list_all (\<lambda>l. li_orderId l \<in> set (map o_id (orders shop))) (order_line_items shop)
    \<and> orders d' = orders shop @ [newOrder]
    \<and> o_data newOrder = SettlementOrder so
    \<and> so_taxAmount so = 0
    \<and> so_shippingAmount so = 0
    \<and> so_subtotal so = so_totalAmount so
    \<and> so_totalAmount so = sum_list (map lid_total (lineItemsOfOrder d' (o_id newOrder)))"
proof -
  obtain d' where h: "handleCheckoutSessionCompleted healthy sessionA 1000 shop = Inr d'"
    using handle_total by blast
  have "orders d' \<noteq> orders shop"
    using h[unfolded handleA_settles] by (auto simp: shop_def)
  then have ne: "d' \<noteq> shop" by auto
  have fk: "list_all (\<lambda>l. li_orderId l \<in> set (map o_id (orders shop))) (order_line_items shop)"
    by (simp add: shop_def)
  from settlement_order_totals[OF h ne fk] h ne fk show ?thesis by blast
qed

lemma joined_lines:
  "those (map (joinItem d) xs) = Some js \<Longrightarrow>
   list_all2 (\<lambda>it l. li_orderId l = oid
       \<and> (\<exists>v p. find (\<lambda>v. v_id v = ci_variantId it) (variants d) = Some v
            \<and> find (\<lambda>p. p_id p = ci_productId it) (products d) = Some p
            \<and> li_data l =
                \<lparr>lid_productId = ci_productId it,
                 lid_variantId = ci_variantId it,
                 lid_quantity = ci_quantity it,
                 lid_price = v_price v,
                 lid_total = v_price v * ci_quantity it,
                 lid_title = p_name p,
                 lid_variantTitle = v_title v,
                 lid_sku = v_sku v\<rparr>))
     xs (createLineItems i oid (map lineItemOf js))"
proof (induction xs arbitrary: js i)
  case Nil
  then show ?case by simp
next
  case (Cons x xs)
  from Cons.prems obtain j js' where
    j: "joinItem d x = Some j" and js': "those (map (joinItem d) xs) = Some js'" and
    js: "js = j # js'"
    by (auto split: option.splits)
  from j obtain v p where
    "find (\<lambda>v. v_id v = ci_variantId x) (variants d) = Some v"
    "find (\<lambda>p. p_id p = ci_productId x) (products d) = Some p"
    "j = \<lparr>ji_item = x, ji_variant = v, ji_product = p\<rparr>"
    by (auto simp: joinItem_def split: option.splits)
  with Cons.IH[OF js', of "Suc i"] show ?case
    by (simp add: js lineItemOf_def)
qed

text \<open>
  Claim C6, as the code has it. Every order line item that the settlement creates is built
  from the cart as it is read at settlement time, one line item per cart item, in order:
  it carries the cart item's product id, variant id and quantity; its unit price is the
  price of the variant in the store at settlement time (the price the payment session is
  built from), not the \<open>itemPrice\<close> snapshot of the cart item; its line total is that unit
  price times the quantity; and it carries the product's name, the variant's title and the
  variant's sku as they are at creation.
\<close>

theorem settlement_line_items:
  assumes h: "handleCheckoutSessionCompleted rejects session now d = Inr d'"
    and ne: "d' \<noteq> d"
  shows "\<exists>newOrder ls.
      orders d' = orders d @ [newOrder]
    \<and> order_line_items d' = order_line_items d @ ls
    \<and> list_all2 (\<lambda>it l. li_orderId l = o_id newOrder
         \<and> (\<exists>v p. find (\<lambda>v. v_id v = ci_variantId it) (variants d) = Some v
              \<and> find (\<lambda>p. p_id p = ci_productId it) (products d) = Some p
              \<and> li_data l =
                  \<lparr>lid_productId = ci_productId it,
                   lid_variantId = ci_variantId it,
                   lid_quantity = ci_quantity it,
                   lid_price = v_price v,
                   lid_total = v_price v * ci_quantity it,
                   lid_title = p_name p,
                   lid_variantTitle = v_title v,
                   lid_sku = v_sku v\<rparr>))
        (itemsOfCart d (s_cartId session)) ls"
proof -
  from handle_result[OF h ne] obtain pl :: plan and u :: user and newOrder t where
    prep: "prepareSettlement session now d = Inr pl" and
    d': "d' = d\<lparr>variants := map (\<lambda>v. v\<lparr>v_stock := v_stock v
                    - purchased (itemsOfCart d (s_cartId session)) (v_id v)\<rparr>) (variants d),
             orders := orders d @ [newOrder],
             order_line_items := order_line_items d @
                createLineItems (next_id (map li_id (order_line_items d))) (o_id newOrder)
                  (pl_lineItemsData pl),
             order_transactions := order_transactions d @ [t],
             cart_items := filter (\<lambda>it. ci_cartId it \<noteq> s_cartId session) (cart_items d)\<rparr>"
    by blast
  from prepare_lines[OF prep] obtain js where
    js: "those (map (joinItem d) (itemsOfCart d (s_cartId session))) = Some js" and
    ld: "pl_lineItemsData pl = map lineItemOf js"
    by blast
  let ?ls = "createLineItems (next_id (map li_id (order_line_items d))) (o_id newOrder)
                  (pl_lineItemsData pl)"
  have "orders d' = orders d @ [newOrder]" by (simp add: d')
  moreover have "order_line_items d' = order_line_items d @ ?ls" by (simp add: d')
  ultimately show ?thesis
    using joined_lines[OF js, of "o_id newOrder" "next_id (map li_id (order_line_items d))"]
    unfolding ld by blast
qed

theorem settlement_line_items_witness:
  "\<exists>d' newOrder ls.
      handleCheckoutSessionCompleted healthy sessionA 1000 shop = Inr d'
    \<and> d' \<noteq> shop
    \<and> orders d' = orders shop @ [newOrder]
    \<and> order_line_items d' = order_line_items shop @ ls
    \<and> map li_orderId ls = [o_id newOrder]
    \<and> map li_data ls =
        [\<lparr>lid_productId = 1, lid_variantId = 1, lid_quantity = 1, lid_price = 1200,
          lid_total = 1200, lid_title = ''Runner'', lid_variantTitle = ''42'',
          lid_sku = ''RUN-42''\<rparr>]"
proof -
  obtain d' where h: "handleCheckoutSessionCompleted healthy sessionA 1000 shop = Inr d'"
    using handle_total by blast
  have "orders d' \<noteq> orders shop"
    using h[unfolded handleA_settles] by (auto simp: shop_def)
  then have ne: "d' \<noteq> shop" by auto
  have items: "itemsOfCart shop (s_cartId sessionA) =
      [\<lparr>ci_id = 1, ci_cartId = 1, ci_productId = 1, ci_variantId = 1,
        ci_quantity = 1, ci_itemPrice = 1000\<rparr>]"
    by (simp add: itemsOfCart_def shop_def sessionA_def)
  from settlement_line_items[OF h ne] obtain newOrder ls where
    a: "orders d' = orders shop @ [newOrder]" "order_line_items d' = order_line_items shop @ ls"
    and b: "map li_orderId ls = [o_id newOrder]
      \<and> map li_data ls =
        [\<lparr>lid_productId = 1, lid_variantId = 1, lid_quantity = 1, lid_price = 1200,
          lid_total = 1200, lid_title = ''Runner'', lid_variantTitle = ''42'',
          lid_sku = ''RUN-42''\<rparr>]"
    unfolding items by (auto simp: list_all2_Cons1 shop_def)
  show ?thesis
    apply (rule exI[of _ d'], rule exI[of _ newOrder], rule exI[of _ ls])
    using h ne a b apply simp
    done
qed

text \<open>
  The first customer's cart item carries the snapshot 10.00 taken when it was added; the
  variant costs 12.00 when the payment is settled; the line item's unit price is 12.00.
\<close>

theorem settlement_price_counterexample:
  "(case handleCheckoutSessionCompleted healthy sessionA 1000 shop of
      Inl e \<Rightarrow> []
    | Inr d' \<Rightarrow> map (\<lambda>l. lid_price (li_data l)) (order_line_items d')) = [1200]
   \<and> map ci_itemPrice (itemsOfCart shop (s_cartId sessionA)) = [1000]
   \<and> map v_price (filter (\<lambda>v. v_id v = 1) (variants shop)) = [1200]"
  by (simp add: handleA_settles) (simp add: shop_def itemsOfCart_def sessionA_def)

text \<open>The webhook endpoint: an invalid signature is answered 400 and nothing is written.\<close>

lemma webhook_invalid_signature:
  "constructEvent body sig = Inl msg \<Longrightarrow>
   handleStripeWebhook constructEvent rejects now body sig d = (400, d)"
  by (simp add: handleStripeWebhook_def)

text \<open>
  Every event with a valid signature is answered 200, whatever its kind and whatever
  happens while it is processed: the handlers catch every error themselves, so the
  endpoint's own \<open>catch\<close>, which answers 500, is never entered.
\<close>

lemma webhook_never_500:
  "constructEvent body sig = Inr event \<Longrightarrow>
   fst (handleStripeWebhook constructEvent rejects now body sig d) = 200"
  using handle_total[of rejects "ev_object event" now d]
  by (auto simp: handleStripeWebhook_def handleCheckoutSessionExpired_def split: sum.splits)

text \<open>
  Claim C3. The endpoint should answer 200 to an authenticated, dispatched event, except
  that an unexpected error raised while the event is processed should give 500, so that
  the gateway delivers the event again. The code does not do the second part. Here the
  completed-session event of the first customer arrives with a good signature on the
  small store while the store rejects the insert of the order: the settlement reaches its
  transaction, the transaction throws and is rolled back, and the endpoint answers 200
  with the store unchanged. The payment stays captured, no order exists, and the gateway
  has no reason to deliver the event again.
\<close>

theorem webhook_acknowledges_failed_settlement:
  "(case prepareSettlement sessionA 1000 shop of
      Inl s \<Rightarrow> None
    | Inr pl \<Rightarrow>
        (case settlementTx insertFails sessionA pl shop of
           Inl e \<Rightarrow> Some e
         | Inr r \<Rightarrow> None)) = Some Rejected
   \<and> handleStripeWebhook gatewayA insertFails 1000 body ''good'' shop = (200, shop)"
  by (simp add: eval_defs Let_def handleStripeWebhook_def gatewayA_def insertFails_def)

text \<open>
  Claim C4. With stock 1 of a variant and two settlements that each buy one unit, at most
  one should succeed and the stock should not go below zero. The handler reads the cart
  and checks the stock before it opens its transaction, and the decrement inside the
  transaction is unconditional. When the two requests interleave at that point (both read
  and check against the same store, then both run their transactions), both succeed: two
  orders are created and the stock of the variant ends at -1.
\<close>

theorem concurrent_settlements_oversell:
  "(case (prepareSettlement sessionA 1000 shop, prepareSettlement sessionB 1001 shop) of
      (Inr planA, Inr planB) \<Rightarrow>
        (case commitSettlement healthy sessionA planA shop of
           (Inr orderA, d1) \<Rightarrow>
             (case commitSettlement healthy sessionB planB d1 of
                (Inr orderB, d2) \<Rightarrow> (map v_stock (variants d2), length (orders d2))
              | (Inl e, d2) \<Rightarrow> ([], 0))
         | (Inl e, d1) \<Rightarrow> ([], 0))
    | _ \<Rightarrow> ([], 0)) = ([- 1, 5], 2)
   \<and> map v_stock (variants shop) = [1, 5]"
  by (simp add: eval_defs Let_def)

text \<open>
  The same two events handled one after the other: the second finds no stock and creates
  nothing.
\<close>

lemma sequential_settlements_keep_stock:
  "(case handleCheckoutSessionCompleted healthy sessionA 1000 shop of
      Inl e \<Rightarrow> ([], 0)
    | Inr d1 \<Rightarrow>
        (case handleCheckoutSessionCompleted healthy sessionB 1001 d1 of
           Inl e \<Rightarrow> ([], 0)
         | Inr d2 \<Rightarrow> (map v_stock (variants d2), length (orders d2)))) = ([0, 5], 1)"
  by (simp add: eval_defs Let_def)

text \<open>
  Claim C8. Direct checkout for a user who has no ACTIVE cart, or whose ACTIVE cart has no
  items, is answered 400 and leaves the whole store as it was: no order is created and
  the cart is unchanged.
\<close>

theorem checkout_requires_nonempty_active_cart:
  assumes "findActiveCart d userId = None
         \<or> (\<exists>c. findActiveCart d userId = Some c \<and> itemsOfCart d (c_id c) = [])"
  shows "checkout rejects ops userId shippingAddress paymentMethod notes now d = (400, d)"
  using assms
  by (auto simp: checkout_def transaction_def checkoutTx_def)

theorem checkout_requires_nonempty_active_cart_witness:
  "findActiveCart shop 3 = None
   \<and> checkout accepted exact_ops 3 ''Rua Direita 10'' ''card'' None 5 shop = (400, shop)
   \<and> map c_id (filter (\<lambda>c. c_userId c = Some 1 \<and> c_cartStatus c = ACTIVE)
        (carts (shop\<lparr>cart_items := []\<rparr>))) = [1]
   \<and> itemsOfCart (shop\<lparr>cart_items := []\<rparr>) 1 = []
   \<and> checkout accepted exact_ops 1 ''Rua Direita 10'' ''card'' None 5 (shop\<lparr>cart_items := []\<rparr>)
       = (400, shop\<lparr>cart_items := []\<rparr>)"
proof -
  have a: "findActiveCart shop 3 = None"
    by (simp add: findActiveCart_def shop_def)
  have b: "\<exists>c. findActiveCart (shop\<lparr>cart_items := []\<rparr>) 1 = Some c
      \<and> itemsOfCart (shop\<lparr>cart_items := []\<rparr>) (c_id c) = []"
    by (simp add: findActiveCart_def itemsOfCart_def shop_def)
  have c: "map c_id (filter (\<lambda>c. c_userId c = Some 1 \<and> c_cartStatus c = ACTIVE)
        (carts (shop\<lparr>cart_items := []\<rparr>))) = [1]"
    by (simp add: shop_def)
  have d: "itemsOfCart (shop\<lparr>cart_items := []\<rparr>) 1 = []"
    by (simp add: itemsOfCart_def)
  from checkout_requires_nonempty_active_cart[of shop 3 accepted exact_ops "''Rua Direita 10''" "''card''" None 5]
    checkout_requires_nonempty_active_cart[of "shop\<lparr>cart_items := []\<rparr>" 1 accepted exact_ops
      "''Rua Direita 10''" "''card''" None 5] a b c d
  show ?thesis by simp
qed

lemma recalculateTotal_items:
  "recalculateTotal ops cartId d = Inr d' \<Longrightarrow> cart_items d' = cart_items d"
  by (auto simp: recalculateTotal_def Let_def split: if_splits)

lemma updateCartItem_items:
  "updateCartItem itemId f d = Inr d' \<Longrightarrow>
   cart_items d' = map (\<lambda>x. if ci_id x = itemId then f x else x) (cart_items d)"
  by (auto simp: updateCartItem_def split: if_splits)

lemma updateItemQuantity_items:
  "cart_items (snd (updateItemQuantity ops userId itemId newQty d)) = cart_items d
   \<or> cart_items (snd (updateItemQuantity ops userId itemId newQty d)) =
          map (\<lambda>x. if ci_id x = itemId then x\<lparr>ci_quantity := newQty\<rparr> else x) (cart_items d)"
  by (auto simp: updateItemQuantity_def split: option.splits if_splits sum.splits
      dest!: recalculateTotal_items updateCartItem_items)

text \<open>
  Adding an item that is in the user's active cart already: the item is written when the
  new quantity fits its column, and the response is 200 when the recomputed total fits
  its column too.
\<close>

lemma addItem_existing:
  assumes c: "findActiveCart d userId = Some c"
    and i: "find (\<lambda>x. ci_cartId x = c_id c \<and> ci_productId x = productId
                     \<and> ci_variantId x = variantId) (cart_items d) = Some it"
    and v: "find (\<lambda>v. v_id v = variantId) (variants d) = Some v"
  shows "(fst (addItem ops userId productId variantId qty d) = 200) =
           (fits_integer (ci_quantity it + qty)
            \<and> fits_decimal_10_2 (to_decimal_10_2 ops (calculateTotalPrice ops
                 (filter (\<lambda>x. ci_cartId x = c_id c)
                    (map (\<lambda>x. if ci_id x = ci_id it
                               then x\<lparr>ci_quantity := ci_quantity it + qty,
                                      ci_itemPrice := v_price v\<rparr>
                               else x) (cart_items d))))))"
    and "cart_items (snd (addItem ops userId productId variantId qty d)) =
           (if fits_integer (ci_quantity it + qty)
            then map (\<lambda>x. if ci_id x = ci_id it
                           then x\<lparr>ci_quantity := ci_quantity it + qty, ci_itemPrice := v_price v\<rparr>
                           else x) (cart_items d)
            else cart_items d)"
proof -
  from c have cm: "c \<in> set (carts d)"
    by (auto simp: findActiveCart_def dest: find_SomeD)
  from i have im: "it \<in> set (cart_items d)" by (auto dest: find_SomeD)
  from cm have lc: "list_ex (\<lambda>x. c_id x = c_id c) (carts d)" by (auto simp: list_ex_iff)
  from im have li: "list_ex (\<lambda>x. ci_id x = ci_id it) (cart_items d)" by (auto simp: list_ex_iff)
  have la: "list_all (\<lambda>x. fits_integer (ci_quantity it + qty))
      (filter (\<lambda>x. ci_id x = ci_id it) (cart_items d)) = fits_integer (ci_quantity it + qty)"
    using im by (auto simp: list_all_iff)
  show "(fst (addItem ops userId productId variantId qty d) = 200) =
           (fits_integer (ci_quantity it + qty)
            \<and> fits_decimal_10_2 (to_decimal_10_2 ops (calculateTotalPrice ops
                 (filter (\<lambda>x. ci_cartId x = c_id c)
                    (map (\<lambda>x. if ci_id x = ci_id it
                               then x\<lparr>ci_quantity := ci_quantity it + qty,
                                      ci_itemPrice := v_price v\<rparr>
                               else x) (cart_items d))))))"
    using c i v lc li la
    by (simp add: addItem_def Let_def updateCartItem_def recalculateTotal_def itemsOfCart_def)
  show "cart_items (snd (addItem ops userId productId variantId qty d)) =
           (if fits_integer (ci_quantity it + qty)
            then map (\<lambda>x. if ci_id x = ci_id it
                           then x\<lparr>ci_quantity := ci_quantity it + qty, ci_itemPrice := v_price v\<rparr>
                           else x) (cart_items d)
            else cart_items d)"
    using c i v lc li la
    by (simp add: addItem_def Let_def updateCartItem_def recalculateTotal_def itemsOfCart_def)
qed

text \<open>
  Claim C10. Updating the quantity of a cart item never changes the id, the cart, the
  product, the variant or the \<open>itemPrice\<close> snapshot of any cart item, whatever the outcome of
  the request; when it succeeds, the cart items are the old ones with the quantity of the
  named item replaced. Adding an item that is already in the user's active cart, in
  contrast, raises the quantity and also replaces the \<open>itemPrice\<close> snapshot by the variant's
  current price: it does so whenever the raised quantity fits the INTEGER column (otherwise
  nothing is written), and it answers 200 exactly when, in addition, the recomputed total
  fits its DECIMAL(10,2) column.
\<close>

theorem updateItemQuantity_frame:
  "map (\<lambda>x. (ci_id x, ci_cartId x, ci_productId x, ci_variantId x, ci_itemPrice x))
     (cart_items (snd (updateItemQuantity ops userId itemId newQty d)))
   = map (\<lambda>x. (ci_id x, ci_cartId x, ci_productId x, ci_variantId x, ci_itemPrice x))
       (cart_items d)
   \<and> (updateItemQuantity ops userId itemId newQty d = (200, d') \<longrightarrow>
        cart_items d' =
          map (\<lambda>x. if ci_id x = itemId then x\<lparr>ci_quantity := newQty\<rparr> else x) (cart_items d))
   \<and> (findActiveCart d userId = Some c
        \<and> find (\<lambda>x. ci_cartId x = c_id c \<and> ci_productId x = productId
                     \<and> ci_variantId x = variantId) (cart_items d) = Some it
        \<and> find (\<lambda>v. v_id v = variantId) (variants d) = Some v \<longrightarrow>
        (fst (addItem ops userId productId variantId qty d) = 200) =
           (fits_integer (ci_quantity it + qty)
            \<and> fits_decimal_10_2 (to_decimal_10_2 ops (calculateTotalPrice ops
                 (filter (\<lambda>x. ci_cartId x = c_id c)
                    (map (\<lambda>x. if ci_id x = ci_id it
                               then x\<lparr>ci_quantity := ci_quantity it + qty,
                                      ci_itemPrice := v_price v\<rparr>
                               else x) (cart_items d))))))
        \<and> cart_items (snd (addItem ops userId productId variantId qty d)) =
            (if fits_integer (ci_quantity it + qty)
             then map (\<lambda>x. if ci_id x = ci_id it
                            then x\<lparr>ci_quantity := ci_quantity it + qty, ci_itemPrice := v_price v\<rparr>
                            else x) (cart_items d)
             else cart_items d))"
proof -
  have 1: "map (\<lambda>x. (ci_id x, ci_cartId x, ci_productId x, ci_variantId x, ci_itemPrice x))
     (cart_items (snd (updateItemQuantity ops userId itemId newQty d)))
   = map (\<lambda>x. (ci_id x, ci_cartId x, ci_productId x, ci_variantId x, ci_itemPrice x))
       (cart_items d)"
    using updateItemQuantity_items[of ops userId itemId newQty d]
    by (auto simp: comp_def)
  have 2: "cart_items d' =
      map (\<lambda>x. if ci_id x = itemId then x\<lparr>ci_quantity := newQty\<rparr> else x) (cart_items d)"
    if "updateItemQuantity ops userId itemId newQty d = (200, d')"
    using that
    by (auto simp: updateItemQuantity_def split: option.splits if_splits sum.splits
        dest!: recalculateTotal_items updateCartItem_items)
  note 3 = addItem_existing[of d userId c productId variantId it v ops qty]
  from 1 2 3 show ?thesis by blast
qed

text \<open>The definitions that evaluate the cart routes on a concrete store.\<close>

lemmas cart_defs =
  addItem_def updateItemQuantity_def removeItem_def findActiveCart_def updateCartItem_def
  createCartItem_def createCart_def recalculateTotal_def itemsOfCart_def next_id_def
  fits_integer_def fits_decimal_10_2_def calculateTotalPrice_def shop_def

theorem updateItemQuantity_frame_witness:
  "fst (updateItemQuantity exact_ops 1 1 3 shop) = 200
   \<and> cart_items (snd (updateItemQuantity exact_ops 1 1 3 shop)) =
       [\<lparr>ci_id = 1, ci_cartId = 1, ci_productId = 1, ci_variantId = 1,
         ci_quantity = 3, ci_itemPrice = 1000\<rparr>,
        \<lparr>ci_id = 2, ci_cartId = 2, ci_productId = 1, ci_variantId = 1,
         ci_quantity = 1, ci_itemPrice = 1200\<rparr>]
   \<and> fits_integer (1 + 2)
   \<and> fst (addItem exact_ops 1 1 1 2 shop) = 200
   \<and> cart_items (snd (addItem exact_ops 1 1 1 2 shop)) =
       [\<lparr>ci_id = 1, ci_cartId = 1, ci_productId = 1, ci_variantId = 1,
         ci_quantity = 3, ci_itemPrice = 1200\<rparr>,
        \<lparr>ci_id = 2, ci_cartId = 2, ci_productId = 1, ci_variantId = 1,
         ci_quantity = 1, ci_itemPrice = 1200\<rparr>]"
proof -
  let ?c = "\<lparr>c_id = 1, c_userId = Some 1, c_cartStatus = ACTIVE,
      c_totalPrice = 1000, c_completedAt = None, c_orderId = None\<rparr>"
  let ?it = "\<lparr>ci_id = 1, ci_cartId = 1, ci_productId = 1, ci_variantId = 1,
         ci_quantity = 1, ci_itemPrice = 1000\<rparr>"
  let ?v = "\<lparr>v_id = 1, v_productId = 1,
      v_price = 1200, v_sku = ''RUN-42'', v_stock = 1, v_title = ''42''\<rparr>"
  let ?new = "map (\<lambda>x. if ci_id x = ci_id ?it
                        then x\<lparr>ci_quantity := ci_quantity ?it + 2, ci_itemPrice := v_price ?v\<rparr>
                        else x) (cart_items shop)"
  obtain d' where u: "updateItemQuantity exact_ops 1 1 3 shop = (200, d')"
    by (simp add: cart_defs exact_ops_def Let_def)
  have fa: "findActiveCart shop 1 = Some ?c"
    by (simp add: findActiveCart_def shop_def)
  have fi: "find (\<lambda>x. ci_cartId x = c_id ?c \<and> ci_productId x = 1 \<and> ci_variantId x = 1)
      (cart_items shop) = Some ?it"
    by (simp add: shop_def)
  have fv: "find (\<lambda>v. v_id v = 1) (variants shop) = Some ?v"
    by (simp add: shop_def)
  have fq: "fits_integer (ci_quantity ?it + 2)" by (simp add: fits_integer_def)
  have new: "?new =
       [\<lparr>ci_id = 1, ci_cartId = 1, ci_productId = 1, ci_variantId = 1,
         ci_quantity = 3, ci_itemPrice = 1200\<rparr>,
        \<lparr>ci_id = 2, ci_cartId = 2, ci_productId = 1, ci_variantId = 1,
         ci_quantity = 1, ci_itemPrice = 1200\<rparr>]"
    by (simp add: shop_def)
  have ft: "fits_decimal_10_2 (to_decimal_10_2 exact_ops (calculateTotalPrice exact_ops
      (filter (\<lambda>x. ci_cartId x = c_id ?c) ?new)))"
    unfolding new by (simp add: calculateTotalPrice_def exact_ops_def fits_decimal_10_2_def)
  note t = updateItemQuantity_frame[of exact_ops 1 1 3 shop d' ?c 1 1 ?it ?v 2]
  from t u have 1: "cart_items d' =
      map (\<lambda>x. if ci_id x = 1 then x\<lparr>ci_quantity := 3\<rparr> else x) (cart_items shop)"
    by blast
  from t fa fi fv fq ft have 2: "fst (addItem exact_ops 1 1 1 2 shop) = 200
      \<and> cart_items (snd (addItem exact_ops 1 1 1 2 shop)) = ?new"
    by presburger
  have 3: "fits_integer (1 + 2)" by (simp add: fits_integer_def)
  from 1 2 3 u show ?thesis unfolding new by (simp add: shop_def)
qed

text \<open>
  Adding a variant that does not exist creates and modifies no cart item, and is answered
  404 when the user has an active cart.
\<close>

lemma addItem_unknown_variant:
  assumes "find (\<lambda>v. v_id v = variantId) (variants d) = None"
  shows "cart_items (snd (addItem ops userId productId variantId qty d)) = cart_items d"
    and "findActiveCart d userId = Some c \<Longrightarrow>
         fst (addItem ops userId productId variantId qty d) = 404"
  using assms
  by (auto simp: addItem_def createCart_def Let_def split: option.splits sum.splits if_splits)

text \<open>
  Claim C7. Adding an item whose variant does not belong to the stated product should be
  answered NOT_FOUND and create no cart item. The route only checks that the variant
  exists. On the small store variant 2 belongs to product 2; the first customer's request
  names product 1 with variant 2, and the route creates a cart item that pairs product 1
  with variant 2, at the price of variant 2; it answers 201 when the recomputed total of
  the cart (15.00 here) fits its column.
\<close>

theorem addItem_accepts_foreign_variant:
  "map v_productId (filter (\<lambda>v. v_id v = 2) (variants shop)) = [2]
   \<and> cart_items (snd (addItem ops 1 1 2 1 shop)) =
       cart_items shop @
       [\<lparr>ci_id = 3, ci_cartId = 1, ci_productId = 1, ci_variantId = 2,
         ci_quantity = 1, ci_itemPrice = 500\<rparr>]
   \<and> (fits_decimal_10_2 (to_decimal_10_2 ops (calculateTotalPrice ops
         [\<lparr>ci_id = 1, ci_cartId = 1, ci_productId = 1, ci_variantId = 1,
           ci_quantity = 1, ci_itemPrice = 1000\<rparr>,
          \<lparr>ci_id = 3, ci_cartId = 1, ci_productId = 1, ci_variantId = 2,
           ci_quantity = 1, ci_itemPrice = 500\<rparr>])) \<longrightarrow>
       fst (addItem ops 1 1 2 1 shop) = 201)"
  by (simp add: addItem_def updateItemQuantity_def findActiveCart_def
      createCartItem_def recalculateTotal_def itemsOfCart_def next_id_def
      fits_integer_def shop_def Let_def numeral_3_eq_3)

theorem addItem_accepts_foreign_variant_witness:
  "fits_decimal_10_2 (to_decimal_10_2 exact_ops (calculateTotalPrice exact_ops
         [\<lparr>ci_id = 1, ci_cartId = 1, ci_productId = 1, ci_variantId = 1,
           ci_quantity = 1, ci_itemPrice = 1000\<rparr>,
          \<lparr>ci_id = 3, ci_cartId = 1, ci_productId = 1, ci_variantId = 2,
           ci_quantity = 1, ci_itemPrice = 500\<rparr>]))
   \<and> fst (addItem exact_ops 1 1 2 1 shop) = 201
   \<and> cart_items (snd (addItem exact_ops 1 1 2 1 shop)) =
       cart_items shop @
       [\<lparr>ci_id = 3, ci_cartId = 1, ci_productId = 1, ci_variantId = 2,
         ci_quantity = 1, ci_itemPrice = 500\<rparr>]"
proof -
  have f: "fits_decimal_10_2 (to_decimal_10_2 exact_ops (calculateTotalPrice exact_ops
         [\<lparr>ci_id = 1, ci_cartId = 1, ci_productId = 1, ci_variantId = 1,
           ci_quantity = 1, ci_itemPrice = 1000\<rparr>,
          \<lparr>ci_id = 3, ci_cartId = 1, ci_productId = 1, ci_variantId = 2,
           ci_quantity = 1, ci_itemPrice = 500\<rparr>]))"
    by (simp add: calculateTotalPrice_def exact_ops_def fits_decimal_10_2_def)
  from addItem_accepts_foreign_variant[of exact_ops] f show ?thesis by blast
qed

text \<open>
  The cached total. Each cart route ends by storing what \<open>calculateTotalPrice\<close> returns for
  the items the cart then has, rounded into the column; with exact number operations
  that value is the exact sum of price times quantity.
\<close>

lemma foldl_plus_sum:
  "foldl (\<lambda>t x. t + g x) a xs = a + sum_list (map g xs)" for a :: rat
  by (induction xs arbitrary: a) (auto simp: algebra_simps)

lemma calculateTotalPrice_exact:
  "calculateTotalPrice exact_ops items =
     sum_list (map (\<lambda>item. of_int (ci_itemPrice item) / 100 * of_int (ci_quantity item)) items)"
  using foldl_plus_sum[of "\<lambda>item. of_int (ci_itemPrice item) / 100 * of_int (ci_quantity item)" 0 items]
  by (simp add: calculateTotalPrice_def exact_ops_def)

lemma recalculateTotal_total:
  "recalculateTotal ops cartId d = Inr d' \<Longrightarrow>
   carts d' = map (\<lambda>c. if c_id c = cartId
                       then c\<lparr>c_totalPrice :=
                              to_decimal_10_2 ops (calculateTotalPrice ops (itemsOfCart d' cartId))\<rparr>
                       else c) (carts d)
   \<and> fits_decimal_10_2 (to_decimal_10_2 ops (calculateTotalPrice ops (itemsOfCart d' cartId)))"
  by (auto simp: recalculateTotal_def Let_def itemsOfCart_def split: if_splits)

text \<open>
  Claim C5. After a change of a cart's items the persisted total of the cart should be
  the exact sum of price times quantity over its items. The routes write the item first
  and the total afterwards, outside any transaction, and the total is a DECIMAL(10,2)
  column. On the small store the first customer sets the quantity of the 10.00 item to
  10000000. The number operations involved are exact in doubles (10 times 10000000 is
  100000000). The item is written with the new quantity; the total 100000000.00 does not
  fit the column, so the update of the cart is rejected and the route answers 500; the
  cart keeps its old total 10.00 while the exact sum of its items is 100000000.00.
\<close>

theorem updateItemQuantity_stale_total:
  assumes "parseFloat ops 1000 = 10"
    and "js_times ops 10 10000000 = 100000000"
    and "js_plus ops 0 100000000 = 100000000"
    and "to_decimal_10_2 ops 100000000 = 10000000000"
  shows "fst (updateItemQuantity ops 1 1 10000000 shop) = 500
       \<and> itemsOfCart (snd (updateItemQuantity ops 1 1 10000000 shop)) 1 =
           [\<lparr>ci_id = 1, ci_cartId = 1, ci_productId = 1, ci_variantId = 1,
             ci_quantity = 10000000, ci_itemPrice = 1000\<rparr>]
       \<and> map c_totalPrice
           (filter (\<lambda>c. c_id c = 1) (carts (snd (updateItemQuantity ops 1 1 10000000 shop))))
           = [1000]
       \<and> exactTotal (itemsOfCart (snd (updateItemQuantity ops 1 1 10000000 shop)) 1)
           = 10000000000"
  using assms
  by (simp add: cart_defs exactTotal_def Let_def)

theorem updateItemQuantity_stale_total_witness:
  "parseFloat exact_ops 1000 = 10
   \<and> js_times exact_ops 10 10000000 = 100000000
   \<and> js_plus exact_ops 0 100000000 = 100000000
   \<and> to_decimal_10_2 exact_ops 100000000 = 10000000000
   \<and> fst (updateItemQuantity exact_ops 1 1 10000000 shop) = 500
   \<and> itemsOfCart (snd (updateItemQuantity exact_ops 1 1 10000000 shop)) 1 =
       [\<lparr>ci_id = 1, ci_cartId = 1, ci_productId = 1, ci_variantId = 1,
         ci_quantity = 10000000, ci_itemPrice = 1000\<rparr>]
   \<and> map c_totalPrice
       (filter (\<lambda>c. c_id c = 1) (carts (snd (updateItemQuantity exact_ops 1 1 10000000 shop))))
       = [1000]
   \<and> exactTotal (itemsOfCart (snd (updateItemQuantity exact_ops 1 1 10000000 shop)) 1)
       = 10000000000"
proof -
  have a: "parseFloat exact_ops 1000 = 10" by (simp add: exact_ops_def)
  have b: "js_times exact_ops 10 10000000 = 100000000" by (simp add: exact_ops_def)
  have c: "js_plus exact_ops 0 100000000 = 100000000" by (simp add: exact_ops_def)
  have d: "to_decimal_10_2 exact_ops 100000000 = 10000000000" by (simp add: exact_ops_def)
  note r = updateItemQuantity_stale_total[OF a b c d]
  from a b c d r show ?thesis
    by - (intro conjI; (elim conjE)?; assumption)
qed

end
